theory Spec2Isabelle
  imports Main "HOL-Library.AList" "HOL-Library.Sublist"
begin

section \<open>The service IR\<close>

text \<open>
  The generator reads a basketry \<open>Service\<close>.  Only the fields that the three source
  files read are modelled.  A \<open>Literal<string>\<close> is modelled by its \<open>value\<close>.  Field
  names carry a prefix because record fields are global constants: \<open>p_name\<close> is
  \<open>Parameter.name.value\<close>, \<open>m_name\<close> is \<open>Method.name.value\<close>, and so on.
\<close>

text \<open>The string union behind \<open>HttpParameter.in.value\<close> and \<open>ApiKeyScheme.in.value\<close>.\<close>

datatype Location = InHeader | InQuery | InPath | InFormData | InBody | InCookie

record Parameter =
  p_name :: string
  p_typeName :: string
  p_isArray :: bool
  p_isPrimitive :: bool
  p_rules :: "string list"

text \<open>
  What \<open>buildTypeName\<close> receives as \<open>type\<close>: a parameter, a return type, or the object
  that \<open>buildFullyQualifiedTypeName\<close> assembles.
\<close>

record TypedValue =
  tv_typeName :: string
  tv_isPrimitive :: bool
  tv_isArray :: bool
  tv_rules :: "string list"

definition parameterType :: "Parameter \<Rightarrow> TypedValue" where
  "parameterType p =
     \<lparr> tv_typeName = p_typeName p, tv_isPrimitive = p_isPrimitive p, tv_isArray = p_isArray p,
       tv_rules = p_rules p \<rparr>"

datatype SecurityScheme =
    BasicScheme string
  | ApiKeyScheme string string Location
  | OAuth2Scheme string

fun scheme_name :: "SecurityScheme \<Rightarrow> string" where
  "scheme_name (BasicScheme n) = n"
| "scheme_name (ApiKeyScheme n prm loc) = n"
| "scheme_name (OAuth2Scheme n) = n"

record Method =
  m_name :: string
  m_parameters :: "Parameter list"
  m_returnType :: "TypedValue option"
  m_security :: "SecurityScheme list list"
  m_description :: "string list"

record HttpParameter =
  hprm_name :: string
  hprm_in :: Location

record HttpMethod =
  hm_name :: string
  hm_verb :: string
  hm_parameters :: "HttpParameter list"

record HttpPath =
  hp_path :: string
  hp_methods :: "HttpMethod list"

record Interface =
  i_name :: string
  i_methods :: "Method list"
  i_http :: "HttpPath list"
  i_description :: "string list"

record Property =
  prop_name :: string
  prop_typeName :: string
  prop_isArray :: bool
  prop_isPrimitive :: bool

record Type =
  t_name :: string
  t_properties :: "Property list"

record Enum =
  e_name :: string

record Service =
  majorVersion :: nat
  interfaces :: "Interface list"
  types :: "Type list"
  enums :: "Enum list"

text \<open>
  \<open>SorbetHttpClientOptions\<close>, read through \<open>options?.sorbet?.field\<close>.  The source tests
  the two lists only through \<open>?.length\<close>, so an absent list and an empty list are the same
  value here.  \<open>o_types\<close> is the \<open>types\<close> object when there is one: its own entries, a
  finite map from type name to caster identifier.
\<close>

record Options =
  o_magicComments :: "string list"
  o_fileIncludes :: "string list"
  o_interfacesModule :: "string option"
  o_lib :: "string option"
  o_types :: "(string \<rightharpoonup> string) option"

record File =
  f_path :: "string list"
  f_contents :: string

section \<open>Imported helpers\<close>

text \<open>
  Everything the source imports from other packages (\<open>case\<close>, \<open>basketry\<close>,
  \<open>@basketry/sorbet\<close>, \<open>path\<close>) and from the modules \<open>./utils\<close> is a field of the record
  \<open>lib\<close>: the theorems below hold for every choice of these functions.  \<open>allHttpPaths\<close>
  and \<open>allParameters\<close> are the two enumerations of the IR that basketry provides; each entry
  keeps only what the source destructures from it.  \<open>indent\<close> and \<open>block\<close> take the lines
  their argument yields.  The last argument of \<open>buildTypeName\<close> is \<open>skipArrayify\<close>.
  \<open>inheritedProperty\<close> belongs to the JavaScript runtime: it is what a property lookup on a
  plain object finds along the prototype chain for a name that is not an own property (the
  members of \<open>Object.prototype\<close>, such as \<open>constructor\<close> and \<open>toString\<close>), as a template
  literal renders it.
\<close>

record lib =
  snake :: "string \<Rightarrow> string"
  pascal :: "string \<Rightarrow> string"
  sep :: string
  indent :: "string list \<Rightarrow> string list"
  block :: "string \<Rightarrow> string list \<Rightarrow> string list"
  warning :: "Service \<Rightarrow> string"
  isRequired :: "Parameter \<Rightarrow> bool"
  localeCompare :: "string \<Rightarrow> string \<Rightarrow> int"
  allHttpPaths :: "Service \<Rightarrow> HttpPath option list"
  allParameters :: "Service \<Rightarrow> (Method \<times> HttpParameter option) list"
  buildNamespace :: "string option \<Rightarrow> Service \<Rightarrow> Options \<Rightarrow> string"
  buildInterfaceNamespace :: "Service \<Rightarrow> Options \<Rightarrow> string"
  buildInterfaceName :: "Interface \<Rightarrow> string"
  buildMethodName :: "Method \<Rightarrow> string"
  buildParameterName :: "Parameter \<Rightarrow> string"
  buildPropertyName :: "Property \<Rightarrow> string"
  buildTypeName :: "Service \<Rightarrow> Options \<Rightarrow> TypedValue \<Rightarrow> bool \<Rightarrow> string"
  inheritedProperty :: "string \<Rightarrow> string option"

section \<open>JavaScript built-ins\<close>

text \<open>
  A \<open>Map\<close> is an association list in insertion order: \<open>set\<close> on a present key replaces the
  value in place, on a new key appends (\<open>AList.update\<close>); \<open>new Map(entries)\<close> sets the
  entries from left to right; iteration follows the list.
\<close>

definition js_map_new :: "('k \<times> 'v) list \<Rightarrow> ('k \<times> 'v) list" where
  "js_map_new entries = foldl (\<lambda>m kv. AList.update (fst kv) (snd kv) m) [] entries"

definition js_map_get :: "('k \<times> 'v) list \<Rightarrow> 'k \<Rightarrow> 'v option" where
  "js_map_get m k = map_of m k"

text \<open>\<open>Array.from(new Set(xs))\<close>: the distinct elements in first-seen order.\<close>

definition js_set_array :: "'a list \<Rightarrow> 'a list" where
  "js_set_array xs = foldl (\<lambda>acc x. if x \<in> set acc then acc else acc @ [x]) [] xs"

text \<open>
  \<open>Array.prototype.sort(cmp)\<close> is a stable sort; it is modelled by insertion from the right,
  where an element goes in front of the first element it does not compare greater than.
\<close>

fun js_insort :: "('a \<Rightarrow> 'a \<Rightarrow> int) \<Rightarrow> 'a \<Rightarrow> 'a list \<Rightarrow> 'a list" where
  "js_insort cmp x [] = [x]"
| "js_insort cmp x (y # ys) = (if cmp x y \<le> 0 then x # y # ys else y # js_insort cmp x ys)"

definition js_sort :: "('a \<Rightarrow> 'a \<Rightarrow> int) \<Rightarrow> 'a list \<Rightarrow> 'a list" where
  "js_sort cmp xs = foldr (js_insort cmp) xs []"

text \<open>\<open>xs.join(s)\<close>.\<close>

fun js_join :: "string \<Rightarrow> string list \<Rightarrow> string" where
  "js_join s [] = []"
| "js_join s [x] = x"
| "js_join s (x # y # ys) = x @ s @ js_join s (y # ys)"

text \<open>
  \<open>str.split(s)\<close> for a non-empty separator \<open>s\<close>: \<open>js_split_from s acc str\<close> has read
  \<open>acc\<close> since the last separator.
\<close>

function js_split_from :: "string \<Rightarrow> string \<Rightarrow> string \<Rightarrow> string list" where
  "js_split_from s acc [] = [acc]"
| "js_split_from s acc (c # cs) =
     (if s \<noteq> [] \<and> prefix s (c # cs)
      then acc # js_split_from s [] (drop (length s) (c # cs))
      else js_split_from s (acc @ [c]) cs)"
  by pat_completeness auto
termination
  by (relation "measure (\<lambda>(s, acc, str). length str)") (auto simp: Suc_le_eq)

definition js_split :: "string \<Rightarrow> string \<Rightarrow> string list" where
  "js_split s str = js_split_from s [] str"

text \<open>Template-literal rendering of a non-negative integer.\<close>

definition digit_char :: "nat \<Rightarrow> char" where
  "digit_char d = ''0123456789'' ! d"

function show_nat :: "nat \<Rightarrow> string" where
  "show_nat n = (if n < 10 then [digit_char n] else show_nat (n div 10) @ [digit_char (n mod 10)])"
  by pat_completeness auto
termination
  by (relation "measure id") auto

declare show_nat.simps [simp del]

section \<open>The binding resolver (http-client-factory.ts)\<close>

text \<open>
  \<open>getHttp\<close> fills a \<open>Map\<close> from \<open>snake(httpMethod.name.value)\<close> to the pair
  \<open>[httpMethod, httpPath]\<close>, walking \<open>allHttpPaths\<close> and skipping absent paths, then looks
  \<open>snake(methodName)\<close> up.  The \<open>WeakMap\<close> cache keyed by the service only avoids rebuilding
  the same \<open>Map\<close>, so the model rebuilds it.
\<close>

definition httpPathMap :: "lib \<Rightarrow> Service \<Rightarrow> (string \<times> (HttpMethod \<times> HttpPath)) list" where
  "httpPathMap L service =
     foldl (\<lambda>m entry. case entry of
              None \<Rightarrow> m
            | Some httpPath \<Rightarrow>
                foldl (\<lambda>m httpMethod. AList.update (snake L (hm_name httpMethod)) (httpMethod, httpPath) m)
                  m (hp_methods httpPath))
       [] (allHttpPaths L service)"

definition getHttp :: "lib \<Rightarrow> Service \<Rightarrow> string \<Rightarrow> (HttpMethod \<times> HttpPath) option" where
  "getHttp L service methodName = js_map_get (httpPathMap L service) (snake L methodName)"

definition key :: "lib \<Rightarrow> string \<Rightarrow> string \<Rightarrow> string" where
  "key L m p = snake L m @ ''|||'' @ snake L p"

definition httpParameterMap :: "lib \<Rightarrow> Service \<Rightarrow> (string \<times> HttpParameter) list" where
  "httpParameterMap L service =
     foldl (\<lambda>m entry. case snd entry of
              None \<Rightarrow> m
            | Some httpParameter \<Rightarrow>
                AList.update (key L (m_name (fst entry)) (hprm_name httpParameter)) httpParameter m)
       [] (allParameters L service)"

definition getHttpParameter :: "lib \<Rightarrow> Service \<Rightarrow> string \<Rightarrow> string \<Rightarrow> HttpParameter option" where
  "getHttpParameter L service methodName parameterName =
     js_map_get (httpParameterMap L service) (key L methodName parameterName)"

section \<open>The client generator (http-client-factory.ts)\<close>

definition uri :: string where
  "uri = ''safe_internal_uri''"

definition req :: string where
  "req = ''safe_internal_req''"

definition res :: string where
  "res = ''safe_internal_res''"

definition apiRoot :: "lib \<Rightarrow> string" where
  "apiRoot L = snake L ''apiRoot''"

text \<open>
  \<open>comment\<close> yields one \<open>#\<close> line per line of a description; an absent description is the
  empty list.
\<close>

definition comment :: "string list \<Rightarrow> string list" where
  "comment text = map (\<lambda>line. ''# '' @ line) text"

definition magicComments :: "Options \<Rightarrow> string list" where
  "magicComments options =
     (if o_magicComments options \<noteq> []
      then map (\<lambda>magicComment. ''# '' @ magicComment) (o_magicComments options) @ [[]]
      else [])"

definition sortParameters :: "lib \<Rightarrow> Parameter list \<Rightarrow> Parameter list" where
  "sortParameters L parameters =
     js_sort (\<lambda>a b. (if isRequired L a then 0 else 1) - (if isRequired L b then 0 else 1)) parameters"

definition buildSignatureParameters :: "lib \<Rightarrow> Service \<Rightarrow> Options \<Rightarrow> Method \<Rightarrow> string list" where
  "buildSignatureParameters L service options method =
     indent L
       (map (\<lambda>(i, param).
               let comma = (if Suc i = length (m_parameters method) then [] else '','');
                   typeName = buildTypeName L service options (parameterType param) False;
                   nilableTypeName =
                     (if isRequired L param then typeName else ''T.nilable('' @ typeName @ '')'')
               in buildParameterName L param @ '': '' @ nilableTypeName @ comma)
          (enumerate 0 (sortParameters L (m_parameters method))))"

definition buildSignature :: "lib \<Rightarrow> Service \<Rightarrow> Options \<Rightarrow> Method \<Rightarrow> string list" where
  "buildSignature L service options method =
     (case m_returnType method of
        Some returnType \<Rightarrow>
          (let typeName = buildTypeName L service options returnType False
           in if m_parameters method \<noteq> []
              then block L ''sig do''
                     ([''override.params(''] @ buildSignatureParameters L service options method
                      @ ['').returns(''] @ indent L [typeName] @ ['')''])
              else [''sig { override.returns('' @ typeName @ '') }''])
      | None \<Rightarrow>
          (if m_parameters method \<noteq> []
           then block L ''sig do''
                  ([''override.params(''] @ buildSignatureParameters L service options method
                   @ ['').void''])
           else [''sig { override.void }'']))"

text \<open>
  The \<open>Map\<close> that \<open>buildUri\<close>, \<open>buildQuery\<close>, \<open>buildHeaders\<close> and \<open>buildBody\<close> each build
  from the method's parameters: parameter name to the parameter and its resolved binding.
\<close>

definition paramsByName ::
  "lib \<Rightarrow> Service \<Rightarrow> Method \<Rightarrow> (string \<times> (Parameter \<times> HttpParameter option)) list" where
  "paramsByName L service method =
     js_map_new (map (\<lambda>p. (p_name p, (p, getHttpParameter L service (m_name method) (p_name p))))
                   (m_parameters method))"

definition getParamName :: "string \<Rightarrow> string option" where
  "getParamName seg =
     (if prefix '':'' seg then Some (drop 1 seg)
      else if prefix ''{'' seg \<and> suffix ''}'' seg then Some (drop 1 (take (length seg - 1) seg))
      else None)"

text \<open>The function that \<open>buildUri\<close> maps over the segments of the path template.\<close>

definition buildUriSegment :: "lib \<Rightarrow> Service \<Rightarrow> Method \<Rightarrow> string \<Rightarrow> string" where
  "buildUriSegment L service method seg =
     (case getParamName seg of
        None \<Rightarrow> seg
      | Some paramName \<Rightarrow>
          if paramName = [] then seg
          else (case js_map_get (paramsByName L service method) paramName of
                  None \<Rightarrow> seg
                | Some (param, None) \<Rightarrow> seg
                | Some (param, Some httpParam) \<Rightarrow>
                    if hprm_in httpParam \<noteq> InPath then seg
                    else ''#{'' @ buildParameterName L param @ ''}''))"

definition buildUri :: "lib \<Rightarrow> Service \<Rightarrow> HttpPath \<Rightarrow> Method \<Rightarrow> string" where
  "buildUri L service httpPath method =
     (let subpath = js_join ''/'' (map (buildUriSegment L service method)
                                     (js_split ''/'' (hp_path httpPath)))
      in ''#{@'' @ apiRoot L @ ''}/v'' @ show_nat (majorVersion service) @ subpath)"

text \<open>The second \<open>Map\<close> of \<open>buildQuery\<close>: the entries whose binding is in \<open>query\<close>.\<close>

definition queryMap :: "lib \<Rightarrow> Service \<Rightarrow> Method \<Rightarrow> (string \<times> (Parameter \<times> HttpParameter)) list" where
  "queryMap L service method =
     foldl (\<lambda>m entry. case snd (snd entry) of
              None \<Rightarrow> m
            | Some queryParam \<Rightarrow>
                if hprm_in queryParam \<noteq> InQuery then m
                else AList.update (fst entry) (fst (snd entry), queryParam) m)
       [] (paramsByName L service method)"

definition buildQuery :: "lib \<Rightarrow> Service \<Rightarrow> Method \<Rightarrow> string list" where
  "buildQuery L service method =
     (let m = queryMap L service method
      in if m \<noteq> []
         then [uri @ ''.query = URI.encode_www_form('']
              @ indent L
                  ([''{'']
                   @ indent L
                       (map (\<lambda>(name, (param, queryParam)).
                               [CHR 0x27] @ name @ [CHR 0x27] @ '': '' @ buildParameterName L param @ '','')
                          m)
                   @ [''}.compact''])
              @ ['')'']
         else [])"

definition buildHeaders :: "lib \<Rightarrow> Service \<Rightarrow> Method \<Rightarrow> string list" where
  "buildHeaders L service method =
     concat (map (\<lambda>scheme. case scheme of
                    ApiKeyScheme n prm loc \<Rightarrow>
                      if loc = InHeader
                      then [req @ ''['' @ [CHR 0x27] @ prm @ [CHR 0x27] @ ''] = @'' @ snake L n]
                      else []
                  | _ \<Rightarrow> [])
               (concat (m_security method)))
     @ concat (map (\<lambda>(name, (param, httpParam)). case httpParam of
                      None \<Rightarrow> []
                    | Some h \<Rightarrow>
                        if hprm_in h \<noteq> InHeader then []
                        else [req @ ''['' @ [CHR 0x27] @ hprm_name h @ [CHR 0x27] @ ''] = ''
                              @ buildParameterName L param])
                 (paramsByName L service method))"

definition buildBody :: "lib \<Rightarrow> Service \<Rightarrow> Method \<Rightarrow> string list" where
  "buildBody L service method =
     concat (map (\<lambda>(name, (param, httpParam)). case httpParam of
                    None \<Rightarrow> []
                  | Some h \<Rightarrow>
                      if hprm_in h \<noteq> InBody then []
                      else (let paramName = buildParameterName L param
                            in [req @ ''.body = map_'' @ snake L (p_typeName param) @ ''_to_dto(''
                                @ paramName @ '').to_s''
                                @ (if isRequired L param then [] else '' if !'' @ paramName @ ''.nil?'')]))
               (paramsByName L service method))"

definition buildReturn :: "lib \<Rightarrow> Method \<Rightarrow> string list" where
  "buildReturn L method =
     (case m_returnType method of
        None \<Rightarrow> []
      | Some returnType \<Rightarrow>
          [''map_dto_to_'' @ snake L (tv_typeName returnType) @ ''(JSON.parse('' @ res @ ''.body))''])"

text \<open>The generator function that \<open>buildDefinition\<close> passes to \<open>block\<close> as the method body.\<close>

definition buildDefinitionBody ::
  "lib \<Rightarrow> Service \<Rightarrow> HttpMethod \<Rightarrow> HttpPath \<Rightarrow> Method \<Rightarrow> string list" where
  "buildDefinitionBody L service httpMethod httpPath method =
     [uri @ '' = URI('' @ [CHR 0x22] @ buildUri L service httpPath method @ [CHR 0x22] @ '')'']
     @ buildQuery L service method
     @ [req @ '' = Net::HTTP::'' @ pascal L (hm_verb httpMethod) @ ''.new('' @ uri @ '')'']
     @ buildHeaders L service method
     @ buildBody L service method
     @ [(if m_returnType method \<noteq> None then res @ '' = '' else [])
        @ ''Net::HTTP.start('' @ uri @ ''.hostname, '' @ uri @ ''.port) { |http| http.request(''
        @ req @ '') }'']
     @ buildReturn L method"

definition buildDefinition :: "lib \<Rightarrow> Service \<Rightarrow> Options \<Rightarrow> Method \<Rightarrow> string list" where
  "buildDefinition L service options method =
     (case getHttp L service (m_name method) of
        None \<Rightarrow> []
      | Some (httpMethod, httpPath) \<Rightarrow>
          (let parameters =
                 (if m_parameters method \<noteq> []
                  then ''('' @ js_join '', ''
                                (map (\<lambda>param. buildParameterName L param @ '':''
                                               @ (if isRequired L param then [] else '' nil''))
                                   (sortParameters L (m_parameters method)))
                       @ '')''
                  else [])
           in block L (''def '' @ buildMethodName L method @ parameters)
                (buildDefinitionBody L service httpMethod httpPath method)))"

definition buildInitializer :: "lib \<Rightarrow> Interface \<Rightarrow> string list" where
  "buildInitializer L intf =
     (let names = js_set_array
                    (concat (map (\<lambda>m. map (\<lambda>scheme. snake L (scheme_name scheme)) (concat (m_security m)))
                               (i_methods intf)))
      in [''sig { params('' @ apiRoot L @ '': String'' @ (if names \<noteq> [] then '', '' else [])
          @ js_join '', '' (map (\<lambda>n. n @ '': String'') names) @ '').void }'']
         @ block L (''def initialize('' @ apiRoot L @ '':'' @ (if names \<noteq> [] then '', '' else [])
                    @ js_join '', '' (map (\<lambda>n. n @ '':'') names) @ '')'')
             ([''@'' @ apiRoot L @ '' = '' @ apiRoot L] @ map (\<lambda>n. ''@'' @ n @ '' = '' @ n) names))"

section \<open>File names (name-factory.ts)\<close>

definition libFolder :: "lib \<Rightarrow> Options \<Rightarrow> string list" where
  "libFolder L options =
     (case o_lib options of
        None \<Rightarrow> [''app'', ''lib'']
      | Some l \<Rightarrow>
          if l = [] then [''app'', ''lib'']
          else filter (\<lambda>x. x \<noteq> [] \<and> x \<noteq> ''.'' \<and> x \<noteq> ''..'') (js_split (sep L) l))"

definition buildClientName :: "lib \<Rightarrow> Interface \<Rightarrow> string" where
  "buildClientName L intf = pascal L (i_name intf @ ''_http_client'')"

definition buildClientNamespace :: "lib \<Rightarrow> Service \<Rightarrow> Options \<Rightarrow> string" where
  "buildClientNamespace L service options =
     buildNamespace L (o_interfacesModule options) service options"

definition buildClientFilepath :: "lib \<Rightarrow> Interface \<Rightarrow> Service \<Rightarrow> Options \<Rightarrow> string list" where
  "buildClientFilepath L intf service options =
     (let namespace = buildClientNamespace L service options
      in libFolder L options @ map (snake L) (js_split ''::'' namespace)
         @ [snake L (buildClientName L intf) @ ''.rb''])"

definition buildMapperName :: "lib \<Rightarrow> string" where
  "buildMapperName L = pascal L ''HttpClientHelpers''"

definition buildMapperNamespace :: "lib \<Rightarrow> Service \<Rightarrow> Options \<Rightarrow> string" where
  "buildMapperNamespace L service options = buildNamespace L None service options"

definition buildMapperFilepath :: "lib \<Rightarrow> Service \<Rightarrow> Options \<Rightarrow> string list" where
  "buildMapperFilepath L service options =
     (let namespace = buildMapperNamespace L service options
      in libFolder L options @ map (snake L) (js_split ''::'' namespace)
         @ [snake L (buildMapperName L) @ ''.rb''])"

section \<open>The client artifact\<close>

text \<open>\<open>from\<close> joins the lines with a newline.\<close>

definition from_lines :: "string list \<Rightarrow> string" where
  "from_lines lines = js_join [CHR 0x0A] lines"

text \<open>
  The body of the loop over the sorted methods in \<open>buildClient\<close>: a blank line, the method's
  description, its signature and its definition.
\<close>

definition buildClientMethod :: "lib \<Rightarrow> Service \<Rightarrow> Options \<Rightarrow> Method \<Rightarrow> string list" where
  "buildClientMethod L service options method =
     [[]] @ comment (m_description method)
     @ buildSignature L service options method
     @ buildDefinition L service options method"

definition buildClient :: "lib \<Rightarrow> Service \<Rightarrow> Options \<Rightarrow> Interface \<Rightarrow> string list" where
  "buildClient L service options intf =
     (let methods = js_sort (\<lambda>a b. localeCompare L (m_name a) (m_name b)) (i_methods intf)
      in [warning L service, []]
         @ magicComments options
         @ [''# typed: strict'', []]
         @ (if o_fileIncludes options \<noteq> []
            then map (\<lambda>include. ''require '' @ [CHR 0x27] @ include @ [CHR 0x27]) (o_fileIncludes options)
                 @ [[]]
            else [])
         @ comment (i_description intf)
         @ block L (''module '' @ buildInterfaceNamespace L service options)
             (block L (''class '' @ pascal L (i_name intf) @ ''HttpClient'')
                ([''extend T::Sig'', [],
                  ''include '' @ buildInterfaceNamespace L service options @ ''::''
                    @ buildInterfaceName L intf,
                  ''include '' @ buildMapperNamespace L service options @ ''::'' @ buildMapperName L,
                  []]
                 @ buildInitializer L intf
                 @ concat (map (buildClientMethod L service options) methods)))
         @ [[]])"

definition buildClientFile :: "lib \<Rightarrow> Service \<Rightarrow> Options \<Rightarrow> Interface \<Rightarrow> File" where
  "buildClientFile L service options intf =
     \<lparr> f_path = buildClientFilepath L intf service options,
       f_contents = from_lines (buildClient L service options intf) \<rparr>"

definition generateClients :: "lib \<Rightarrow> Service \<Rightarrow> Options \<Rightarrow> File list" where
  "generateClients L service options = map (buildClientFile L service options) (interfaces service)"

section \<open>The mapper generator (mapper-factory, in index.ts)\<close>

text \<open>
  \<open>options?.sorbet?.types?.[typeName]\<close> as the source tests it.  Without a \<open>types\<close> object
  the lookup is absent.  With one, an own entry is found first, and an empty string is falsy;
  a name that is no own entry is looked up along the prototype chain, and what is found there
  is an object or a function, which is truthy.
\<close>

definition typesOverride :: "lib \<Rightarrow> Options \<Rightarrow> string \<Rightarrow> string option" where
  "typesOverride L options typeName =
     (case o_types options of
        None \<Rightarrow> None
      | Some typesObject \<Rightarrow>
          (case typesObject typeName of
             Some override \<Rightarrow> if override = [] then None else Some override
           | None \<Rightarrow> inheritedProperty L typeName))"

definition buildPrimitiveCast :: "lib \<Rightarrow> Options \<Rightarrow> string \<Rightarrow> string \<Rightarrow> string" where
  "buildPrimitiveCast L options primitive baseCase =
     (case typesOverride L options primitive of
        Some override \<Rightarrow> override @ ''('' @ baseCase @ '')''
      | None \<Rightarrow>
          if primitive = ''boolean'' then ''ActiveModel::Type::Boolean.new.cast('' @ baseCase @ '')''
          else if primitive = ''date'' then ''Date.parse('' @ baseCase @ '')''
          else if primitive = ''date-time'' then ''DateTime.parse('' @ baseCase @ '')''
          else if primitive = ''double'' \<or> primitive = ''float'' \<or> primitive = ''number''
            then ''Float('' @ baseCase @ '')''
          else if primitive = ''integer'' \<or> primitive = ''long''
            then ''Integer('' @ baseCase @ '', 10)''
          else baseCase)"

definition buildPropCast :: "lib \<Rightarrow> Options \<Rightarrow> string \<Rightarrow> bool \<Rightarrow> string \<Rightarrow> string" where
  "buildPropCast L options typeName isPrimitive baseCase =
     (if isPrimitive
      then (case typesOverride L options typeName of
              Some override \<Rightarrow> override @ ''('' @ baseCase @ ''.to_s)''
            | None \<Rightarrow>
                (let casted = buildPrimitiveCast L options typeName baseCase
                 in if casted = baseCase then baseCase
                    else baseCase @ ''.is_a?(String) ? '' @ casted @ '' : '' @ baseCase))
      else ''map_dto_to_'' @ snake L typeName @ ''('' @ baseCase @ '')'')"

text \<open>
  \<open>buildDtoPropCast\<close> is a method of the same \<open>Builder\<close>, so the options are in its scope;
  its body never reads them.
\<close>

definition buildDtoPropCast :: "lib \<Rightarrow> Options \<Rightarrow> string \<Rightarrow> bool \<Rightarrow> string \<Rightarrow> string" where
  "buildDtoPropCast L options typeName isPrimitive baseCase =
     (if isPrimitive
      then (if typeName = ''date'' then baseCase @ ''&.to_s''
            else if typeName = ''date-time'' then baseCase @ ''&.utc&.iso8601''
            else baseCase)
      else ''map_'' @ snake L typeName @ ''_to_dto('' @ baseCase @ '')'')"

definition buildMapperTypeName :: "lib \<Rightarrow> Service \<Rightarrow> Options \<Rightarrow> string \<Rightarrow> string" where
  "buildMapperTypeName L service options name =
     buildTypeName L service options
       \<lparr> tv_typeName = name, tv_isPrimitive = False, tv_isArray = False, tv_rules = [] \<rparr> True"

text \<open>
  The loops of \<open>buildMapper\<close> emit four kinds of Ruby method.  Each is a definition of its
  own here, named after the comment that introduces it in the source: \<open>DTO to struct\<close>,
  \<open>struct to DTO\<close>, \<open>DTO to enum\<close>, \<open>enum to DTO\<close>.
\<close>

definition dtoToStruct :: "lib \<Rightarrow> Service \<Rightarrow> Options \<Rightarrow> Type \<Rightarrow> string list" where
  "dtoToStruct L service options t =
     (let struct = buildMapperTypeName L service options (t_name t);
          arr = t_properties t
      in [''def map_dto_to_'' @ snake L (t_name t) @ ''(dto)'']
         @ indent L
             ([struct @ ''.new('']
              @ indent L
                  (map (\<lambda>(i, prop).
                          if prop_isArray prop
                          then buildPropertyName L prop @ '': dto['' @ [CHR 0x27] @ prop_name prop
                               @ [CHR 0x27] @ '']&.map { |item| ''
                               @ buildPropCast L options (prop_typeName prop) (prop_isPrimitive prop) ''item''
                               @ '' }'' @ (if Suc i < length arr then '','' else [])
                          else buildPropertyName L prop @ '': ''
                               @ buildPropCast L options (prop_typeName prop) (prop_isPrimitive prop)
                                   (''dto['' @ [CHR 0x27] @ prop_name prop @ [CHR 0x27] @ '']'')
                               @ (if Suc i < length arr then '','' else []))
                     (enumerate 0 arr))
              @ ['')''])
         @ [''rescue StandardError'']
         @ indent L [''dto'']
         @ [''end''])"

definition structToDto :: "lib \<Rightarrow> Service \<Rightarrow> Options \<Rightarrow> Type \<Rightarrow> string list" where
  "structToDto L service options t =
     [''def map_'' @ snake L (t_name t) @ ''_to_dto('' @ snake L (t_name t) @ '')'']
     @ indent L
         ([''{'']
          @ indent L
              (map (\<lambda>prop.
                      if prop_isArray prop
                      then [CHR 0x27] @ prop_name prop @ [CHR 0x27] @ '': '' @ snake L (t_name t) @ ''.''
                           @ buildPropertyName L prop @ ''&.map { |item| ''
                           @ buildDtoPropCast L options (prop_typeName prop) (prop_isPrimitive prop) ''item''
                           @ '' },''
                      else [CHR 0x27] @ prop_name prop @ [CHR 0x27] @ '': ''
                           @ buildDtoPropCast L options (prop_typeName prop) (prop_isPrimitive prop)
                               (snake L (t_name t) @ ''.'' @ buildPropertyName L prop)
                           @ '','')
                 (t_properties t))
          @ [''}.compact''])
     @ [''rescue StandardError'']
     @ indent L [snake L (t_name t)]
     @ [''end'']"

definition dtoToEnum :: "lib \<Rightarrow> Service \<Rightarrow> Options \<Rightarrow> Enum \<Rightarrow> string list" where
  "dtoToEnum L service options e =
     [''def map_dto_to_'' @ snake L (e_name e) @ ''(dto)'']
     @ indent L [buildMapperTypeName L service options (e_name e) @ ''.deserialize(dto)'']
     @ [''rescue StandardError'']
     @ indent L [''dto'']
     @ [''end'']"

definition enumToDto :: "lib \<Rightarrow> Service \<Rightarrow> Options \<Rightarrow> Enum \<Rightarrow> string list" where
  "enumToDto L service options e =
     [''def map_'' @ snake L (e_name e) @ ''_to_dto(enum)'']
     @ indent L [''enum&.serialize'']
     @ [''rescue StandardError'']
     @ indent L [''enum'']
     @ [''end'']"

text \<open>
  The sets \<open>castPrimitive\<close> and \<open>castPrimitiveArray\<close> are created empty and nothing adds to
  them, so the two loops over them emit nothing.
\<close>

definition castPrimitive :: "string list" where
  "castPrimitive = []"

definition castPrimitiveArray :: "string list" where
  "castPrimitiveArray = []"

definition castPrimitiveDef :: "lib \<Rightarrow> Options \<Rightarrow> string \<Rightarrow> string list" where
  "castPrimitiveDef L options primitive =
     [''def cast_'' @ snake L primitive @ ''(param)'']
     @ indent L [buildPrimitiveCast L options primitive ''param'' @ '' if !param.nil?'']
     @ [''rescue StandardError'']
     @ indent L [''param'']
     @ [''end'']"

definition castPrimitiveArrayDef :: "lib \<Rightarrow> Options \<Rightarrow> string \<Rightarrow> string list" where
  "castPrimitiveArrayDef L options primitive =
     [''def cast_'' @ snake L primitive @ ''_array(param)'']
     @ indent L [''param&.map { |item| '' @ buildPrimitiveCast L options primitive ''item''
                 @ '' if !item.nil? }'']
     @ [''rescue StandardError'']
     @ indent L [''param'']
     @ [''end'']"

text \<open>
  \<open>hasWritten\<close>: every pass of the four loops first yields an empty line, except the very
  first pass.
\<close>

fun separated :: "string list list \<Rightarrow> string list" where
  "separated [] = []"
| "separated [chunk] = chunk"
| "separated (chunk # chunk' # chunks) = chunk @ [[]] @ separated (chunk' # chunks)"

definition mapperChunks :: "lib \<Rightarrow> Service \<Rightarrow> Options \<Rightarrow> string list list" where
  "mapperChunks L service options =
     map (\<lambda>t. dtoToStruct L service options t @ [[]] @ structToDto L service options t) (types service)
     @ map (\<lambda>e. dtoToEnum L service options e @ [[]] @ enumToDto L service options e) (enums service)
     @ map (castPrimitiveDef L options) castPrimitive
     @ map (castPrimitiveArrayDef L options) castPrimitiveArray"

definition buildMapper :: "lib \<Rightarrow> Service \<Rightarrow> Options \<Rightarrow> string list" where
  "buildMapper L service options =
     [warning L service, []]
     @ (if o_magicComments options \<noteq> []
        then map (\<lambda>magicComment. ''# '' @ magicComment) (o_magicComments options) @ [[]]
        else [])
     @ block L (''module '' @ buildNamespace L None service options)
         (block L (''module '' @ buildMapperName L) (separated (mapperChunks L service options)))
     @ [[]]"

definition buildMapperFile :: "lib \<Rightarrow> Service \<Rightarrow> Options \<Rightarrow> File" where
  "buildMapperFile L service options =
     \<lparr> f_path = buildMapperFilepath L service options,
       f_contents = from_lines (buildMapper L service options) \<rparr>"

definition generateMapper :: "lib \<Rightarrow> Service \<Rightarrow> Options \<Rightarrow> File list" where
  "generateMapper L service options = [buildMapperFile L service options]"

section \<open>The generator (index.ts)\<close>

definition generator :: "lib \<Rightarrow> Service \<Rightarrow> Options \<Rightarrow> File list" where
  "generator L service options = generateClients L service options @ generateMapper L service options"

section \<open>A concrete instance of the imported helpers\<close>

text \<open>
  The examples below run the generator, so they need one concrete choice of the imported
  functions.  \<open>sample_lib\<close> is such a choice, kept small: \<open>sample_snake\<close> puts an underscore
  before every capital but the first and lowers it, \<open>sample_pascal\<close> capitalises the words
  between underscores, \<open>sample_indent\<close> puts two spaces before every non-empty line,
  \<open>sample_block\<close> closes the indented body with \<open>end\<close>.  The two enumerations read the
  HTTP paths stored with each interface; \<open>sample_allParameters\<close> pairs a parameter of a
  method with the HTTP parameter of exactly the same name in the first HTTP method of the
  service that has exactly the method's name.
\<close>

definition upper_lower :: "(char \<times> char) list" where
  "upper_lower = zip ''ABCDEFGHIJKLMNOPQRSTUVWXYZ'' ''abcdefghijklmnopqrstuvwxyz''"

definition lower_upper :: "(char \<times> char) list" where
  "lower_upper = zip ''abcdefghijklmnopqrstuvwxyz'' ''ABCDEFGHIJKLMNOPQRSTUVWXYZ''"

fun sample_snake_tail :: "string \<Rightarrow> string" where
  "sample_snake_tail [] = []"
| "sample_snake_tail (c # cs) =
     (case map_of upper_lower c of
        Some l \<Rightarrow> CHR ''_'' # l # sample_snake_tail cs
      | None \<Rightarrow> c # sample_snake_tail cs)"

definition sample_snake :: "string \<Rightarrow> string" where
  "sample_snake s =
     (case s of
        [] \<Rightarrow> []
      | c # cs \<Rightarrow> (case map_of upper_lower c of Some l \<Rightarrow> l | None \<Rightarrow> c) # sample_snake_tail cs)"

definition sample_pascal :: "string \<Rightarrow> string" where
  "sample_pascal s =
     concat (map (\<lambda>w. case w of
                    [] \<Rightarrow> []
                  | c # cs \<Rightarrow> (case map_of lower_upper c of Some u \<Rightarrow> u | None \<Rightarrow> c) # cs)
               (js_split ''_'' s))"

fun sample_localeCompare :: "string \<Rightarrow> string \<Rightarrow> int" where
  "sample_localeCompare [] [] = 0"
| "sample_localeCompare [] (y # ys) = - 1"
| "sample_localeCompare (x # xs) [] = 1"
| "sample_localeCompare (x # xs) (y # ys) =
     (if (of_char x :: nat) < of_char y then - 1
      else if (of_char y :: nat) < of_char x then 1
      else sample_localeCompare xs ys)"

definition sample_indent :: "string list \<Rightarrow> string list" where
  "sample_indent lines = map (\<lambda>line. if line = [] then [] else ''  '' @ line) lines"

definition sample_block :: "string \<Rightarrow> string list \<Rightarrow> string list" where
  "sample_block line body = [line] @ sample_indent body @ [''end'']"

definition sample_allHttpPaths :: "Service \<Rightarrow> HttpPath option list" where
  "sample_allHttpPaths service = concat (map (\<lambda>intf. map Some (i_http intf)) (interfaces service))"

definition sample_getHttpMethodByName :: "Service \<Rightarrow> string \<Rightarrow> HttpMethod option" where
  "sample_getHttpMethodByName service methodName =
     find (\<lambda>httpMethod. hm_name httpMethod = methodName)
       (concat (map hp_methods (concat (map i_http (interfaces service)))))"

definition sample_httpParameter :: "Service \<Rightarrow> Method \<Rightarrow> Parameter \<Rightarrow> HttpParameter option" where
  "sample_httpParameter service method parameter =
     (case sample_getHttpMethodByName service (m_name method) of
        None \<Rightarrow> None
      | Some httpMethod \<Rightarrow>
          find (\<lambda>httpParameter. hprm_name httpParameter = p_name parameter) (hm_parameters httpMethod))"

definition sample_allParameters :: "Service \<Rightarrow> (Method \<times> HttpParameter option) list" where
  "sample_allParameters service =
     concat (map (\<lambda>intf.
                    concat (map (\<lambda>method.
                                   map (\<lambda>parameter. (method, sample_httpParameter service method parameter))
                                     (m_parameters method))
                              (i_methods intf)))
               (interfaces service))"

definition sample_buildNamespace :: "string option \<Rightarrow> Service \<Rightarrow> Options \<Rightarrow> string" where
  "sample_buildNamespace subModule service options =
     ''Example::V'' @ show_nat (majorVersion service)
     @ (case subModule of None \<Rightarrow> [] | Some m \<Rightarrow> ''::'' @ m)"

definition sample_buildTypeName :: "Service \<Rightarrow> Options \<Rightarrow> TypedValue \<Rightarrow> bool \<Rightarrow> string" where
  "sample_buildTypeName service options tv skipArrayify =
     (let base = (if tv_isPrimitive tv
                  then (if tv_typeName tv = ''string'' then ''String''
                        else if tv_typeName tv = ''integer'' then ''Integer''
                        else if tv_typeName tv = ''boolean'' then ''T::Boolean''
                        else ''T.untyped'')
                  else sample_buildNamespace None service options @ ''::''
                       @ sample_pascal (tv_typeName tv))
      in if tv_isArray tv \<and> \<not> skipArrayify then ''T::Array['' @ base @ '']'' else base)"

definition sample_inheritedProperty :: "string \<Rightarrow> string option" where
  "sample_inheritedProperty name =
     (if name = ''constructor'' then Some ''function Object() { [native code] }''
      else if name \<in> {''toString'', ''valueOf'', ''hasOwnProperty'', ''isPrototypeOf''}
        then Some (''function '' @ name @ ''() { [native code] }'')
      else None)"

definition sample_lib :: lib where
  "sample_lib =
     \<lparr> snake = sample_snake,
       pascal = sample_pascal,
       sep = ''/'',
       indent = sample_indent,
       block = sample_block,
       warning = (\<lambda>service. ''# This code was generated by a tool.''),
       isRequired = (\<lambda>p. ''required'' \<in> set (p_rules p)),
       localeCompare = sample_localeCompare,
       allHttpPaths = sample_allHttpPaths,
       allParameters = sample_allParameters,
       buildNamespace = sample_buildNamespace,
       buildInterfaceNamespace = (\<lambda>service options.
          sample_buildNamespace (o_interfacesModule options) service options),
       buildInterfaceName = (\<lambda>intf. sample_pascal (i_name intf) @ ''Service''),
       buildMethodName = (\<lambda>m. sample_snake (m_name m)),
       buildParameterName = (\<lambda>p. sample_snake (p_name p)),
       buildPropertyName = (\<lambda>p. sample_snake (prop_name p)),
       buildTypeName = sample_buildTypeName,
       inheritedProperty = sample_inheritedProperty \<rparr>"

section \<open>Example inputs\<close>

text \<open>
  A service with one interface.  \<open>getWidget\<close> is bound to \<open>GET /widgets/:id\<close>; its
  parameter \<open>id\<close> travels in the path and its optional parameter \<open>pageSize\<close> in the query.
  \<open>ping\<close> has no HTTP binding.  The type \<open>widget\<close> has a string, an integer, a date, an
  array of integers and a property of the enum \<open>color\<close>.
\<close>

definition id_parameter :: Parameter where
  "id_parameter =
     \<lparr> p_name = ''id'', p_typeName = ''string'', p_isArray = False, p_isPrimitive = True,
       p_rules = [''required''] \<rparr>"

definition pageSize_parameter :: Parameter where
  "pageSize_parameter =
     \<lparr> p_name = ''pageSize'', p_typeName = ''integer'', p_isArray = False, p_isPrimitive = True,
       p_rules = [] \<rparr>"

definition widget_returnType :: TypedValue where
  "widget_returnType =
     \<lparr> tv_typeName = ''widget'', tv_isPrimitive = False, tv_isArray = False, tv_rules = [] \<rparr>"

definition getWidget_method :: Method where
  "getWidget_method =
     \<lparr> m_name = ''getWidget'', m_parameters = [pageSize_parameter, id_parameter],
       m_returnType = Some widget_returnType, m_security = [], m_description = [] \<rparr>"

definition ping_method :: Method where
  "ping_method =
     \<lparr> m_name = ''ping'', m_parameters = [], m_returnType = None, m_security = [],
       m_description = [] \<rparr>"

definition getWidget_http :: HttpMethod where
  "getWidget_http =
     \<lparr> hm_name = ''getWidget'', hm_verb = ''get'',
       hm_parameters = [\<lparr> hprm_name = ''id'', hprm_in = InPath \<rparr>,
                        \<lparr> hprm_name = ''pageSize'', hprm_in = InQuery \<rparr>] \<rparr>"

definition widgets_path :: HttpPath where
  "widgets_path = \<lparr> hp_path = ''/widgets/:id'', hp_methods = [getWidget_http] \<rparr>"

definition widget_interface :: Interface where
  "widget_interface =
     \<lparr> i_name = ''widget'', i_methods = [ping_method, getWidget_method], i_http = [widgets_path],
       i_description = [] \<rparr>"

definition id_property :: Property where
  "id_property =
     \<lparr> prop_name = ''id'', prop_typeName = ''string'', prop_isArray = False, prop_isPrimitive = True \<rparr>"

definition count_property :: Property where
  "count_property =
     \<lparr> prop_name = ''count'', prop_typeName = ''integer'', prop_isArray = False,
       prop_isPrimitive = True \<rparr>"

definition created_property :: Property where
  "created_property =
     \<lparr> prop_name = ''created'', prop_typeName = ''date'', prop_isArray = False,
       prop_isPrimitive = True \<rparr>"

definition sizes_property :: Property where
  "sizes_property =
     \<lparr> prop_name = ''sizes'', prop_typeName = ''integer'', prop_isArray = True,
       prop_isPrimitive = True \<rparr>"

definition color_property :: Property where
  "color_property =
     \<lparr> prop_name = ''color'', prop_typeName = ''color'', prop_isArray = False,
       prop_isPrimitive = False \<rparr>"

definition widget_type :: Type where
  "widget_type =
     \<lparr> t_name = ''widget'',
       t_properties = [id_property, count_property, created_property, sizes_property, color_property] \<rparr>"

definition color_enum :: Enum where
  "color_enum = \<lparr> e_name = ''color'' \<rparr>"

definition widget_service :: Service where
  "widget_service =
     \<lparr> majorVersion = 1, interfaces = [widget_interface], types = [widget_type],
       enums = [color_enum] \<rparr>"

text \<open>
  A path template that writes the placeholder of \<open>id\<close> with braces, names the query
  parameter \<open>pageSize\<close> with a colon, and has a placeholder that names no parameter.
\<close>

definition braces_path :: HttpPath where
  "braces_path =
     \<lparr> hp_path = ''/widgets/{id}/:pageSize/{missing}'', hp_methods = [getWidget_http] \<rparr>"

definition no_options :: Options where
  "no_options =
     \<lparr> o_magicComments = [], o_fileIncludes = [], o_interfacesModule = None, o_lib = None,
       o_types = None \<rparr>"

text \<open>Options that configure custom casters for \<open>date\<close> and \<open>integer\<close>.\<close>

definition caster_options :: Options where
  "caster_options =
     no_options \<lparr> o_types := Some [''date'' \<mapsto> ''to_date'', ''integer'' \<mapsto> ''to_int''] \<rparr>"

text \<open>
  A service in which two paths declare the operation under two spellings of one name, first
  as \<open>GET /widgets/{id}\<close>, then as \<open>POST /v2/widgets\<close>.
\<close>

definition first_http :: HttpMethod where
  "first_http = \<lparr> hm_name = ''getWidget'', hm_verb = ''get'', hm_parameters = [] \<rparr>"

definition second_http :: HttpMethod where
  "second_http = \<lparr> hm_name = ''get_widget'', hm_verb = ''post'', hm_parameters = [] \<rparr>"

definition first_path :: HttpPath where
  "first_path = \<lparr> hp_path = ''/widgets/{id}'', hp_methods = [first_http] \<rparr>"

definition second_path :: HttpPath where
  "second_path = \<lparr> hp_path = ''/v2/widgets'', hp_methods = [second_http] \<rparr>"

definition twice_bound_service :: Service where
  "twice_bound_service =
     \<lparr> majorVersion = 1,
       interfaces = [\<lparr> i_name = ''widget'', i_methods = [], i_http = [first_path, second_path],
                       i_description = [] \<rparr>],
       types = [], enums = [] \<rparr>"

text \<open>A service whose only method, \<open>ping\<close>, has no HTTP binding at all.\<close>

definition health_interface :: Interface where
  "health_interface =
     \<lparr> i_name = ''health'', i_methods = [ping_method], i_http = [], i_description = [] \<rparr>"

definition health_service :: Service where
  "health_service =
     \<lparr> majorVersion = 1, interfaces = [health_interface], types = [], enums = [] \<rparr>"

text \<open>
  A service with two interfaces that spell one operation in two ways.  The interface
  \<open>widget\<close> has the method \<open>listWidgets\<close> with the parameters \<open>pageSize\<close> and \<open>requestId\<close>,
  bound to \<open>GET /widgets\<close> with no HTTP parameters of its own.  The interface \<open>legacy\<close> has
  the method \<open>list_widgets\<close> with the parameters \<open>page_size\<close> and \<open>request_id\<close>, bound to
  \<open>GET /legacy/widgets\<close>, where \<open>page_size\<close> travels in the query and \<open>request_id\<close> in a
  header.
\<close>

definition requestId_parameter :: Parameter where
  "requestId_parameter =
     \<lparr> p_name = ''requestId'', p_typeName = ''string'', p_isArray = False, p_isPrimitive = True,
       p_rules = [] \<rparr>"

definition page_size_parameter :: Parameter where
  "page_size_parameter =
     \<lparr> p_name = ''page_size'', p_typeName = ''integer'', p_isArray = False, p_isPrimitive = True,
       p_rules = [] \<rparr>"

definition request_id_parameter :: Parameter where
  "request_id_parameter =
     \<lparr> p_name = ''request_id'', p_typeName = ''string'', p_isArray = False, p_isPrimitive = True,
       p_rules = [] \<rparr>"

definition listWidgets_method :: Method where
  "listWidgets_method =
     \<lparr> m_name = ''listWidgets'', m_parameters = [pageSize_parameter, requestId_parameter],
       m_returnType = None, m_security = [], m_description = [] \<rparr>"

definition list_widgets_method :: Method where
  "list_widgets_method =
     \<lparr> m_name = ''list_widgets'', m_parameters = [page_size_parameter, request_id_parameter],
       m_returnType = None, m_security = [], m_description = [] \<rparr>"

definition listWidgets_http :: HttpMethod where
  "listWidgets_http = \<lparr> hm_name = ''listWidgets'', hm_verb = ''get'', hm_parameters = [] \<rparr>"

definition list_widgets_http :: HttpMethod where
  "list_widgets_http =
     \<lparr> hm_name = ''list_widgets'', hm_verb = ''get'',
       hm_parameters = [\<lparr> hprm_name = ''page_size'', hprm_in = InQuery \<rparr>,
                        \<lparr> hprm_name = ''request_id'', hprm_in = InHeader \<rparr>] \<rparr>"

definition two_spellings_service :: Service where
  "two_spellings_service =
     \<lparr> majorVersion = 1,
       interfaces =
         [\<lparr> i_name = ''widget'', i_methods = [listWidgets_method],
            i_http = [\<lparr> hp_path = ''/widgets'', hp_methods = [listWidgets_http] \<rparr>],
            i_description = [] \<rparr>,
          \<lparr> i_name = ''legacy'', i_methods = [list_widgets_method],
            i_http = [\<lparr> hp_path = ''/legacy/widgets'', hp_methods = [list_widgets_http] \<rparr>],
            i_description = [] \<rparr>],
       types = [], enums = [] \<rparr>"

section \<open>Notions used to state the properties\<close>

text \<open>
  The bindings in the order the loops of \<open>getHttp\<close> enumerate them: path by path, and inside a
  path method by method.
\<close>

definition enumeratedBindings :: "lib \<Rightarrow> Service \<Rightarrow> (HttpMethod \<times> HttpPath) list" where
  "enumeratedBindings L service =
     concat (map (\<lambda>entry. case entry of
                    None \<Rightarrow> []
                  | Some httpPath \<Rightarrow> map (\<lambda>httpMethod. (httpMethod, httpPath)) (hp_methods httpPath))
              (allHttpPaths L service))"

subsection \<open>Signatures\<close>

text \<open>
  The order of the parameters in generated code: the required parameters in the order of
  their declaration, then the optional ones in the order of their declaration.
\<close>

definition orderedParameters :: "lib \<Rightarrow> Method \<Rightarrow> Parameter list" where
  "orderedParameters L method =
     filter (isRequired L) (m_parameters method) @ filter (\<lambda>p. \<not> isRequired L p) (m_parameters method)"

text \<open>
  The lines between \<open>override.params(\<close> and the closing parenthesis of a signature: one line
  \<open>name: Type\<close> per parameter in that order, the type of an optional parameter wrapped in
  \<open>T.nilable(...)\<close>, and a comma after every line but the last.
\<close>

definition signatureParameterLines :: "lib \<Rightarrow> Service \<Rightarrow> Options \<Rightarrow> Method \<Rightarrow> string list" where
  "signatureParameterLines L service options method =
     map (\<lambda>(i, param).
            buildParameterName L param @ '': ''
            @ (if isRequired L param then buildTypeName L service options (parameterType param) False
               else ''T.nilable('' @ buildTypeName L service options (parameterType param) False @ '')'')
            @ (if Suc i = length (m_parameters method) then [] else '',''))
       (enumerate 0 (orderedParameters L method))"

text \<open>
  The parameter list of a method definition: keyword parameters in the same order, an
  optional one with the default \<open>nil\<close>; no parentheses when the method has no parameter.
\<close>

definition definitionParameters :: "lib \<Rightarrow> Method \<Rightarrow> string" where
  "definitionParameters L method =
     (if m_parameters method = [] then []
      else ''(''
           @ js_join '', ''
               (map (\<lambda>param. buildParameterName L param @ '':''
                              @ (if isRequired L param then [] else '' nil''))
                  (orderedParameters L method))
           @ '')'')"

subsection \<open>Path templates\<close>

text \<open>
  The name that a segment of a path template holds as a placeholder: what follows the colon
  of \<open>:name\<close>, or what stands between the braces of \<open>{name}\<close>.
\<close>

fun placeholderName :: "string \<Rightarrow> string option" where
  "placeholderName [] = None"
| "placeholderName (c # cs) =
     (if c = CHR '':'' then Some cs
      else if c = CHR ''{'' \<and> cs \<noteq> [] \<and> last cs = CHR ''}'' then Some (butlast cs)
      else None)"

text \<open>
  The parameter that a segment stands for: the segment is a placeholder with a non-empty
  name, a parameter of the method has exactly that name, and the binding of that name
  resolves to the location \<open>path\<close>.  When several parameters share the name it is the last
  of them.
\<close>

definition pathParameter :: "lib \<Rightarrow> Service \<Rightarrow> Method \<Rightarrow> string \<Rightarrow> Parameter option" where
  "pathParameter L service method seg =
     (case placeholderName seg of
        None \<Rightarrow> None
      | Some n \<Rightarrow>
          if n = [] then None
          else (case filter (\<lambda>p. p_name p = n) (m_parameters method) of
                  [] \<Rightarrow> None
                | p # ps \<Rightarrow>
                    (case getHttpParameter L service (m_name method) n of
                       None \<Rightarrow> None
                     | Some h \<Rightarrow> if hprm_in h = InPath then Some (last (p # ps)) else None)))"

text \<open>
  The request path: the template, cut at every \<open>/\<close>, with each segment that stands for a
  parameter replaced by the interpolation of that parameter, and put together again.
\<close>

definition substitutedPath :: "lib \<Rightarrow> Service \<Rightarrow> Method \<Rightarrow> string \<Rightarrow> string" where
  "substitutedPath L service method template =
     js_join ''/''
       (map (\<lambda>seg. case pathParameter L service method seg of
                      Some param \<Rightarrow> ''#{'' @ buildParameterName L param @ ''}''
                    | None \<Rightarrow> seg)
          (js_split ''/'' template))"

subsection \<open>Mapping methods\<close>

text \<open>
  The text of a fail-open Ruby method: \<open>def name(param)\<close>, the indented body, and the
  method-level clause \<open>rescue StandardError\<close> whose only expression is \<open>param\<close>.  Under
  Ruby's rule for such a clause the method returns the argument it was called with whenever
  its body raises a \<open>StandardError\<close>.
\<close>

definition failOpenMethod :: "lib \<Rightarrow> string \<Rightarrow> string \<Rightarrow> string list \<Rightarrow> string list" where
  "failOpenMethod L name param body =
     [''def '' @ name @ ''('' @ param @ '')'']
     @ indent L body
     @ [''rescue StandardError'']
     @ indent L [param]
     @ [''end'']"

text \<open>
  The caster that the \<open>types\<close> option configures for a type name: the non-empty identifier
  that the \<open>types\<close> object holds for the name, or, for a name the object does not hold, what
  the object inherits under that name.
\<close>

definition configuredCaster :: "lib \<Rightarrow> Options \<Rightarrow> string \<Rightarrow> string option" where
  "configuredCaster L options typeName =
     (case o_types options of
        None \<Rightarrow> None
      | Some own \<Rightarrow>
          if typeName \<in> dom own
          then (if own typeName = Some [] then None else own typeName)
          else inheritedProperty L typeName)"

text \<open>
  The primitive-cast table of the wire-to-domain direction: for each primitive type that is
  converted, the text that the conversion puts before and after the field.  The other types
  have no conversion.
\<close>

definition conversionTable :: "(string \<times> string \<times> string) list" where
  "conversionTable =
     [(''boolean'', ''ActiveModel::Type::Boolean.new.cast('', '')''),
      (''date'', ''Date.parse('', '')''),
      (''date-time'', ''DateTime.parse('', '')''),
      (''double'', ''Float('', '')''),
      (''float'', ''Float('', '')''),
      (''number'', ''Float('', '')''),
      (''integer'', ''Integer('', '', 10)''),
      (''long'', ''Integer('', '', 10)'')]"

definition conversion :: "string \<Rightarrow> string \<Rightarrow> string option" where
  "conversion typeName field =
     (case map_of conversionTable typeName of
        None \<Rightarrow> None
      | Some (before, after) \<Rightarrow> Some (before @ field @ after))"

text \<open>
  The wire-to-domain cast of a field that holds a property.  A property that is not
  primitive goes through the mapping method of its type.  A primitive property with a
  configured caster is the call of the caster on the text of the field.  Any other primitive
  property is the field itself when its type has no conversion, and otherwise the conversion
  under the guard \<open>is_a?(String)\<close>, with the field itself as the alternative.
\<close>

definition wireToDomainCast :: "lib \<Rightarrow> Options \<Rightarrow> Property \<Rightarrow> string \<Rightarrow> string" where
  "wireToDomainCast L options prop field =
     (if \<not> prop_isPrimitive prop then ''map_dto_to_'' @ snake L (prop_typeName prop) @ ''('' @ field @ '')''
      else (case configuredCaster L options (prop_typeName prop) of
              Some caster \<Rightarrow> caster @ ''('' @ field @ ''.to_s)''
            | None \<Rightarrow>
                (case conversion (prop_typeName prop) field of
                   None \<Rightarrow> field
                 | Some converted \<Rightarrow> field @ ''.is_a?(String) ? '' @ converted @ '' : '' @ field)))"

text \<open>
  The line of the wire-to-domain method for the property at position \<open>i\<close> of \<open>n\<close>: the
  property read from \<open>dto\<close> under its wire name and cast, element by element when it is an
  array, with a comma after every line but the last.
\<close>

definition wireToDomainLine :: "lib \<Rightarrow> Options \<Rightarrow> nat \<Rightarrow> nat \<Rightarrow> Property \<Rightarrow> string" where
  "wireToDomainLine L options n i prop =
     buildPropertyName L prop @ '': ''
     @ (if prop_isArray prop
        then ''dto['' @ [CHR 0x27] @ prop_name prop @ [CHR 0x27] @ '']&.map { |item| ''
             @ wireToDomainCast L options prop ''item'' @ '' }''
        else wireToDomainCast L options prop (''dto['' @ [CHR 0x27] @ prop_name prop @ [CHR 0x27] @ '']''))
     @ (if Suc i < n then '','' else [])"

definition wireToDomainMethod :: "lib \<Rightarrow> Service \<Rightarrow> Options \<Rightarrow> Type \<Rightarrow> string list" where
  "wireToDomainMethod L service options t =
     failOpenMethod L (''map_dto_to_'' @ snake L (t_name t)) ''dto''
       ([buildTypeName L service options
           \<lparr> tv_typeName = t_name t, tv_isPrimitive = False, tv_isArray = False, tv_rules = [] \<rparr> True
         @ ''.new('']
        @ indent L (map (\<lambda>(i, prop). wireToDomainLine L options (length (t_properties t)) i prop)
                      (enumerate 0 (t_properties t)))
        @ ['')''])"

text \<open>
  The domain-to-wire cast of a field.  It does not depend on the options: a property that is
  not primitive goes through the mapping method of its type, a \<open>date\<close> and a \<open>date-time\<close> are
  serialised, and every other primitive is the field itself.
\<close>

definition domainToWireCast :: "lib \<Rightarrow> Property \<Rightarrow> string \<Rightarrow> string" where
  "domainToWireCast L prop field =
     (if \<not> prop_isPrimitive prop then ''map_'' @ snake L (prop_typeName prop) @ ''_to_dto('' @ field @ '')''
      else if prop_typeName prop = ''date'' then field @ ''&.to_s''
      else if prop_typeName prop = ''date-time'' then field @ ''&.utc&.iso8601''
      else field)"

definition domainToWireLine :: "lib \<Rightarrow> string \<Rightarrow> Property \<Rightarrow> string" where
  "domainToWireLine L var prop =
     [CHR 0x27] @ prop_name prop @ [CHR 0x27] @ '': ''
     @ (if prop_isArray prop
        then var @ ''.'' @ buildPropertyName L prop @ ''&.map { |item| ''
             @ domainToWireCast L prop ''item'' @ '' }''
        else domainToWireCast L prop (var @ ''.'' @ buildPropertyName L prop))
     @ '',''"

definition domainToWireMethod :: "lib \<Rightarrow> Type \<Rightarrow> string list" where
  "domainToWireMethod L t =
     failOpenMethod L (''map_'' @ snake L (t_name t) @ ''_to_dto'') (snake L (t_name t))
       ([''{'']
        @ indent L (map (domainToWireLine L (snake L (t_name t))) (t_properties t))
        @ [''}.compact''])"

definition enumWireToDomainMethod :: "lib \<Rightarrow> Service \<Rightarrow> Options \<Rightarrow> Enum \<Rightarrow> string list" where
  "enumWireToDomainMethod L service options e =
     failOpenMethod L (''map_dto_to_'' @ snake L (e_name e)) ''dto''
       [buildTypeName L service options
          \<lparr> tv_typeName = e_name e, tv_isPrimitive = False, tv_isArray = False, tv_rules = [] \<rparr> True
        @ ''.deserialize(dto)'']"

definition enumDomainToWireMethod :: "lib \<Rightarrow> Enum \<Rightarrow> string list" where
  "enumDomainToWireMethod L e =
     failOpenMethod L (''map_'' @ snake L (e_name e) @ ''_to_dto'') ''enum'' [''enum&.serialize'']"

text \<open>
  A cast expression over \<open>baseCase\<close> is defensive when it is \<open>baseCase\<close> itself or converts
  only under the guard \<open>baseCase.is_a?(String)\<close> and yields \<open>baseCase\<close> otherwise.
\<close>

definition defensiveCast :: "string \<Rightarrow> string \<Rightarrow> bool" where
  "defensiveCast baseCase cast =
     (cast = baseCase
      \<or> (prefix (baseCase @ ''.is_a?(String) ? '') cast \<and> suffix ('' : '' @ baseCase) cast))"

text \<open>A cast expression applies the caster when it is a call of the caster.\<close>

definition appliesCaster :: "string \<Rightarrow> string \<Rightarrow> bool" where
  "appliesCaster caster cast = prefix (caster @ ''('') cast"

section \<open>Evaluating the examples\<close>

lemma sample_lib_simps:
  "snake sample_lib = sample_snake"
  "pascal sample_lib = sample_pascal"
  "sep sample_lib = ''/''"
  "indent sample_lib = sample_indent"
  "block sample_lib = sample_block"
  "warning sample_lib = (\<lambda>service. ''# This code was generated by a tool.'')"
  "isRequired sample_lib = (\<lambda>p. ''required'' \<in> set (p_rules p))"
  "localeCompare sample_lib = sample_localeCompare"
  "allHttpPaths sample_lib = sample_allHttpPaths"
  "allParameters sample_lib = sample_allParameters"
  "buildNamespace sample_lib = sample_buildNamespace"
  "buildInterfaceNamespace sample_lib =
     (\<lambda>service options. sample_buildNamespace (o_interfacesModule options) service options)"
  "buildInterfaceName sample_lib = (\<lambda>intf. sample_pascal (i_name intf) @ ''Service'')"
  "buildMethodName sample_lib = (\<lambda>m. sample_snake (m_name m))"
  "buildParameterName sample_lib = (\<lambda>p. sample_snake (p_name p))"
  "buildPropertyName sample_lib = (\<lambda>p. sample_snake (prop_name p))"
  "buildTypeName sample_lib = sample_buildTypeName"
  "inheritedProperty sample_lib = sample_inheritedProperty"
  by (simp_all add: sample_lib_def)

section \<open>The operation-binding lookup\<close>

lemma map_of_foldl_update:
  "map_of (foldl (\<lambda>m x. AList.update (kf x) (vf x) m) m0 xs) q =
     (case filter (\<lambda>x. kf x = q) xs of [] \<Rightarrow> map_of m0 q | y # ys \<Rightarrow> Some (vf (last (y # ys))))"
proof (induction xs arbitrary: m0)
  case Nil
  show ?case by simp
next
  case (Cons x xs)
  show ?case
    by (simp add: Cons.IH update_conv' split: list.splits)
qed

lemma foldl_bindings:
  "foldl (\<lambda>m entry. case entry of
              None \<Rightarrow> m
            | Some httpPath \<Rightarrow>
                foldl (\<lambda>m httpMethod. AList.update (kf httpMethod) (httpMethod, httpPath) m)
                  m (hp_methods httpPath)) m0 es
   = foldl (\<lambda>m b. AList.update (kf (fst b)) b m) m0
       (concat (map (\<lambda>entry. case entry of
                    None \<Rightarrow> []
                  | Some httpPath \<Rightarrow> map (\<lambda>httpMethod. (httpMethod, httpPath)) (hp_methods httpPath)) es))"
proof (induction es arbitrary: m0)
  case Nil
  show ?case by simp
next
  case (Cons e es)
  show ?case
    by (cases e) (simp_all add: Cons.IH foldl_map)
qed

lemma httpPathMap_bindings:
  "httpPathMap L service =
     foldl (\<lambda>m b. AList.update (snake L (hm_name (fst b))) b m) [] (enumeratedBindings L service)"
  unfolding httpPathMap_def enumeratedBindings_def by (rule foldl_bindings)

lemma getHttp_last:
  "getHttp L service methodName =
     (case filter (\<lambda>b. snake L (hm_name (fst b)) = snake L methodName) (enumeratedBindings L service) of
        [] \<Rightarrow> None
      | b # bs \<Rightarrow> Some (last (b # bs)))"
  unfolding getHttp_def js_map_get_def httpPathMap_bindings
  by (simp add: map_of_foldl_update [where vf = "\<lambda>b. b"] split: list.splits)

text \<open>
  Claim C10.  \<open>getHttp\<close> looks a method name up by its snake-case form and yields at most
  one pair of HTTP method and HTTP path: among the bindings whose snake-case name equals that
  of the requested name, the one enumerated last, and nothing when there is none.  Hence two
  method names with the same snake-case form resolve to the same binding.
\<close>

theorem getHttp_last_binding:
  "getHttp L service methodName =
     (case filter (\<lambda>b. snake L (hm_name (fst b)) = snake L methodName) (enumeratedBindings L service) of
        [] \<Rightarrow> None
      | b # bs \<Rightarrow> Some (last (b # bs)))
   \<and> (snake L methodName = snake L methodName' \<longrightarrow>
        getHttp L service methodName = getHttp L service methodName')"
proof
  show "getHttp L service methodName =
     (case filter (\<lambda>b. snake L (hm_name (fst b)) = snake L methodName) (enumeratedBindings L service) of
        [] \<Rightarrow> None
      | b # bs \<Rightarrow> Some (last (b # bs)))"
    by (rule getHttp_last)
  show "snake L methodName = snake L methodName' \<longrightarrow>
        getHttp L service methodName = getHttp L service methodName'"
    by (simp add: getHttp_def)
qed

lemma sample_snake_getWidget: "sample_snake ''getWidget'' = ''get_widget''"
  by (simp add: sample_snake_def upper_lower_def)

lemma sample_snake_get_widget: "sample_snake ''get_widget'' = ''get_widget''"
  by (simp add: sample_snake_def upper_lower_def)

lemma twice_bound_bindings:
  "enumeratedBindings sample_lib twice_bound_service = [(first_http, first_path), (second_http, second_path)]"
  by (simp add: enumeratedBindings_def sample_lib_simps sample_allHttpPaths_def twice_bound_service_def
      first_path_def second_path_def)

theorem getHttp_last_binding_witness:
  "snake sample_lib ''getWidget'' = snake sample_lib ''get_widget''
   \<and> getHttp sample_lib twice_bound_service ''getWidget'' = Some (second_http, second_path)
   \<and> getHttp sample_lib twice_bound_service ''get_widget'' = Some (second_http, second_path)"
  using getHttp_last_binding [of sample_lib twice_bound_service "''getWidget''" "''get_widget''"]
  by (auto simp add: sample_lib_simps sample_snake_getWidget sample_snake_get_widget
      twice_bound_bindings first_http_def second_http_def)

text \<open>The example services, evaluated once.\<close>

lemma sample_snake_simps:
  "sample_snake ''getWidget'' = ''get_widget''"
  "sample_snake ''get_widget'' = ''get_widget''"
  "sample_snake ''listWidgets'' = ''list_widgets''"
  "sample_snake ''list_widgets'' = ''list_widgets''"
  "sample_snake ''ping'' = ''ping''"
  "sample_snake ''id'' = ''id''"
  "sample_snake ''pageSize'' = ''page_size''"
  "sample_snake ''page_size'' = ''page_size''"
  "sample_snake ''requestId'' = ''request_id''"
  "sample_snake ''request_id'' = ''request_id''"
  "sample_snake ''apiRoot'' = ''api_root''"
  "sample_snake ''widget'' = ''widget''"
  "sample_snake ''color'' = ''color''"
  "sample_snake ''count'' = ''count''"
  "sample_snake ''created'' = ''created''"
  "sample_snake ''sizes'' = ''sizes''"
  by (simp_all add: sample_snake_def upper_lower_def)

lemma sample_pascal_simps:
  "sample_pascal ''health'' = ''Health''"
  "sample_pascal ''widget'' = ''Widget''"
  "sample_pascal ''color'' = ''Color''"
  "sample_pascal ''get'' = ''Get''"
  "sample_pascal ''HttpClientHelpers'' = ''HttpClientHelpers''"
  by (simp_all add: sample_pascal_def js_split_def lower_upper_def)

lemma no_options_simps:
  "o_magicComments no_options = []"
  "o_fileIncludes no_options = []"
  "o_interfacesModule no_options = None"
  "o_lib no_options = None"
  "o_types no_options = None"
  by (simp_all add: no_options_def)

lemma caster_options_simps:
  "o_magicComments caster_options = []"
  "o_types caster_options = Some [''date'' \<mapsto> ''to_date'', ''integer'' \<mapsto> ''to_int'']"
  by (simp_all add: caster_options_def no_options_def)

lemma widget_allHttpPaths:
  "sample_allHttpPaths widget_service = [Some widgets_path]"
  by (simp add: sample_allHttpPaths_def widget_service_def widget_interface_def)

lemma widget_getHttp:
  "getHttp sample_lib widget_service ''getWidget'' = Some (getWidget_http, widgets_path)"
  by (simp add: getHttp_def js_map_get_def httpPathMap_def widget_allHttpPaths widgets_path_def
      getWidget_http_def sample_lib_simps sample_snake_simps)

lemma ping_getHttp:
  "getHttp sample_lib widget_service ''ping'' = None"
  by (simp add: getHttp_def js_map_get_def httpPathMap_def widget_allHttpPaths widgets_path_def
      getWidget_http_def sample_lib_simps sample_snake_simps)

lemma widget_allParameters:
  "sample_allParameters widget_service =
     [(getWidget_method, Some \<lparr> hprm_name = ''pageSize'', hprm_in = InQuery \<rparr>),
      (getWidget_method, Some \<lparr> hprm_name = ''id'', hprm_in = InPath \<rparr>)]"
  by (simp add: sample_allParameters_def sample_httpParameter_def sample_getHttpMethodByName_def
      widget_service_def widget_interface_def ping_method_def getWidget_method_def widgets_path_def
      getWidget_http_def pageSize_parameter_def id_parameter_def)

lemma widget_httpParameterMap:
  "httpParameterMap sample_lib widget_service =
     [(''get_widget|||page_size'', \<lparr> hprm_name = ''pageSize'', hprm_in = InQuery \<rparr>),
      (''get_widget|||id'', \<lparr> hprm_name = ''id'', hprm_in = InPath \<rparr>)]"
  by (simp add: httpParameterMap_def widget_allParameters key_def sample_lib_simps sample_snake_simps
      getWidget_method_def)

lemma widget_getHttpParameter:
  "getHttpParameter sample_lib widget_service ''getWidget'' ''pageSize''
     = Some \<lparr> hprm_name = ''pageSize'', hprm_in = InQuery \<rparr>"
  "getHttpParameter sample_lib widget_service ''getWidget'' ''id''
     = Some \<lparr> hprm_name = ''id'', hprm_in = InPath \<rparr>"
  "getHttpParameter sample_lib widget_service ''getWidget'' ''missing'' = None"
  by (simp_all add: getHttpParameter_def js_map_get_def widget_httpParameterMap key_def sample_lib_simps
      sample_snake_simps sample_snake_def upper_lower_def)

lemma getWidget_parameters:
  "m_parameters getWidget_method = [pageSize_parameter, id_parameter]"
  "m_name getWidget_method = ''getWidget''"
  "m_returnType getWidget_method = Some widget_returnType"
  "m_security getWidget_method = []"
  "m_description getWidget_method = []"
  by (simp_all add: getWidget_method_def)

lemma ping_fields:
  "m_name ping_method = ''ping''"
  "m_parameters ping_method = []"
  "m_returnType ping_method = None"
  "m_security ping_method = []"
  "m_description ping_method = []"
  by (simp_all add: ping_method_def)

lemma sample_required:
  "isRequired sample_lib id_parameter"
  "\<not> isRequired sample_lib pageSize_parameter"
  "\<not> isRequired sample_lib requestId_parameter"
  by (simp_all add: sample_lib_simps id_parameter_def pageSize_parameter_def requestId_parameter_def)

lemma parameter_names:
  "p_name id_parameter = ''id''"
  "p_name pageSize_parameter = ''pageSize''"
  "p_name requestId_parameter = ''requestId''"
  by (simp_all add: id_parameter_def pageSize_parameter_def requestId_parameter_def)

lemma widget_version: "show_nat (majorVersion widget_service) = ''1''"
  by (simp add: widget_service_def show_nat.simps digit_char_def)

lemma widget_paramsByName:
  "paramsByName sample_lib widget_service getWidget_method
     = [(''pageSize'', (pageSize_parameter, Some \<lparr> hprm_name = ''pageSize'', hprm_in = InQuery \<rparr>)),
        (''id'', (id_parameter, Some \<lparr> hprm_name = ''id'', hprm_in = InPath \<rparr>))]"
  by (simp add: paramsByName_def js_map_new_def getWidget_parameters widget_getHttpParameter
      parameter_names)

section \<open>Parameter order\<close>

lemma js_insort_required:
  "isRequired L x \<Longrightarrow>
   js_insort (\<lambda>a b. (if isRequired L a then 0 else 1) - (if isRequired L b then 0 else 1)) x ys = x # ys"
  by (cases ys) simp_all

lemma js_insort_optional:
  "\<not> isRequired L x \<Longrightarrow> \<forall>a \<in> set as. isRequired L a \<Longrightarrow> \<forall>b \<in> set bs. \<not> isRequired L b \<Longrightarrow>
   js_insort (\<lambda>a b. (if isRequired L a then 0 else 1) - (if isRequired L b then 0 else 1)) x (as @ bs)
     = as @ x # bs"
proof (induction as)
  case Nil
  then show ?case by (cases bs) simp_all
next
  case (Cons a as)
  then show ?case by simp
qed

lemma sortParameters_partition:
  "sortParameters L ps = filter (isRequired L) ps @ filter (\<lambda>p. \<not> isRequired L p) ps"
proof (induction ps)
  case Nil
  show ?case by (simp add: sortParameters_def js_sort_def)
next
  case (Cons p ps)
  have step: "sortParameters L (p # ps) =
      js_insort (\<lambda>a b. (if isRequired L a then 0 else 1) - (if isRequired L b then 0 else 1)) p
        (sortParameters L ps)"
    by (simp add: sortParameters_def js_sort_def)
  show ?case
  proof (cases "isRequired L p")
    case True
    then show ?thesis by (simp add: step Cons.IH js_insort_required)
  next
    case False
    then show ?thesis by (simp add: step Cons.IH js_insort_optional)
  qed
qed

lemma sortParameters_ordered: "sortParameters L (m_parameters method) = orderedParameters L method"
  by (simp add: sortParameters_partition orderedParameters_def)

lemma buildSignatureParameters_lines:
  "buildSignatureParameters L service options method
     = indent L (signatureParameterLines L service options method)"
  by (simp add: buildSignatureParameters_def signatureParameterLines_def sortParameters_ordered Let_def)

lemma buildSignature_text:
  "buildSignature L service options method
     = (if m_parameters method = []
        then [case m_returnType method of
                None \<Rightarrow> ''sig { override.void }''
              | Some returnType \<Rightarrow>
                  ''sig { override.returns('' @ buildTypeName L service options returnType False @ '') }'']
        else block L ''sig do''
               ([''override.params(''] @ indent L (signatureParameterLines L service options method)
                @ (case m_returnType method of
                     None \<Rightarrow> ['').void'']
                   | Some returnType \<Rightarrow>
                       ['').returns(''] @ indent L [buildTypeName L service options returnType False]
                       @ ['')''])))"
  by (simp add: buildSignature_def buildSignatureParameters_lines Let_def split: option.splits)

lemma buildDefinition_text:
  "getHttp L service (m_name method) = Some (httpMethod, httpPath) \<Longrightarrow>
   buildDefinition L service options method
     = block L (''def '' @ buildMethodName L method @ definitionParameters L method)
         (buildDefinitionBody L service httpMethod httpPath method)"
  by (simp add: buildDefinition_def definitionParameters_def sortParameters_ordered Let_def)

text \<open>
  Claim C5.  The generated signature lists the parameters in the order required first,
  optional after, each group in declaration order, with the type of every optional parameter
  wrapped in \<open>T.nilable(...)\<close>; the parameter list of the definition, which is emitted when
  the operation binding resolves, has the same order; and both are what the client emits for
  the method, after a blank line and the description.
\<close>

theorem signature_parameter_order:
  "sortParameters L (m_parameters method) = orderedParameters L method
   \<and> buildSignature L service options method
       = (if m_parameters method = []
          then [case m_returnType method of
                  None \<Rightarrow> ''sig { override.void }''
                | Some returnType \<Rightarrow>
                    ''sig { override.returns('' @ buildTypeName L service options returnType False @ '') }'']
          else block L ''sig do''
                 ([''override.params(''] @ indent L (signatureParameterLines L service options method)
                  @ (case m_returnType method of
                       None \<Rightarrow> ['').void'']
                     | Some returnType \<Rightarrow>
                         ['').returns(''] @ indent L [buildTypeName L service options returnType False]
                         @ ['')''])))
   \<and> (getHttp L service (m_name method) = Some (httpMethod, httpPath) \<longrightarrow>
        buildDefinition L service options method
          = block L (''def '' @ buildMethodName L method @ definitionParameters L method)
              (buildDefinitionBody L service httpMethod httpPath method))
   \<and> buildClientMethod L service options method
       = [[]] @ map (\<lambda>line. ''# '' @ line) (m_description method)
         @ buildSignature L service options method @ buildDefinition L service options method"
proof (intro conjI impI)
  show "sortParameters L (m_parameters method) = orderedParameters L method"
    by (rule sortParameters_ordered)
  show "buildSignature L service options method
       = (if m_parameters method = []
          then [case m_returnType method of
                  None \<Rightarrow> ''sig { override.void }''
                | Some returnType \<Rightarrow>
                    ''sig { override.returns('' @ buildTypeName L service options returnType False @ '') }'']
          else block L ''sig do''
                 ([''override.params(''] @ indent L (signatureParameterLines L service options method)
                  @ (case m_returnType method of
                       None \<Rightarrow> ['').void'']
                     | Some returnType \<Rightarrow>
                         ['').returns(''] @ indent L [buildTypeName L service options returnType False]
                         @ ['')''])))"
    by (rule buildSignature_text)
  show "buildClientMethod L service options method
       = [[]] @ map (\<lambda>line. ''# '' @ line) (m_description method)
         @ buildSignature L service options method @ buildDefinition L service options method"
    by (simp add: buildClientMethod_def comment_def)
next
  assume "getHttp L service (m_name method) = Some (httpMethod, httpPath)"
  then show "buildDefinition L service options method
          = block L (''def '' @ buildMethodName L method @ definitionParameters L method)
              (buildDefinitionBody L service httpMethod httpPath method)"
    by (rule buildDefinition_text)
qed

text \<open>The client of the example service, line by line.\<close>

lemma widget_queryMap:
  "queryMap sample_lib widget_service getWidget_method
     = [(''pageSize'', (pageSize_parameter, \<lparr> hprm_name = ''pageSize'', hprm_in = InQuery \<rparr>))]"
  by (simp add: queryMap_def widget_paramsByName)

lemma widget_buildQuery:
  "buildQuery sample_lib widget_service getWidget_method
     = [''safe_internal_uri.query = URI.encode_www_form('',
        ''  {'',
        ''    'pageSize': page_size,'',
        ''  }.compact'',
        '')'']"
  by (simp add: buildQuery_def widget_queryMap uri_def sample_lib_simps sample_indent_def parameter_names
      sample_snake_simps)

lemma widget_buildHeaders: "buildHeaders sample_lib widget_service getWidget_method = []"
  by (simp add: buildHeaders_def widget_paramsByName getWidget_parameters)

lemma widget_buildBody: "buildBody sample_lib widget_service getWidget_method = []"
  by (simp add: buildBody_def widget_paramsByName)

lemma widget_buildReturn:
  "buildReturn sample_lib getWidget_method = [''map_dto_to_widget(JSON.parse(safe_internal_res.body))'']"
  by (simp add: buildReturn_def getWidget_parameters widget_returnType_def res_def sample_lib_simps
      sample_snake_simps)

lemma widget_segments:
  "js_split ''/'' (hp_path widgets_path) = [[], ''widgets'', '':id'']"
  "js_split ''/'' (hp_path second_path) = [[], ''v2'', ''widgets'']"
  "js_split ''/'' (hp_path first_path) = [[], ''widgets'', ''{id}'']"
  "js_split ''/'' (hp_path braces_path) = [[], ''widgets'', ''{id}'', '':pageSize'', ''{missing}'']"
  by (simp_all add: js_split_def widgets_path_def second_path_def first_path_def braces_path_def)

lemma widget_buildUriSegment:
  "buildUriSegment sample_lib widget_service getWidget_method [] = []"
  "buildUriSegment sample_lib widget_service getWidget_method ''widgets'' = ''widgets''"
  "buildUriSegment sample_lib widget_service getWidget_method ''v2'' = ''v2''"
  "buildUriSegment sample_lib widget_service getWidget_method '':id'' = ''#{id}''"
  "buildUriSegment sample_lib widget_service getWidget_method ''{id}'' = ''#{id}''"
  "buildUriSegment sample_lib widget_service getWidget_method '':pageSize'' = '':pageSize''"
  "buildUriSegment sample_lib widget_service getWidget_method ''{missing}'' = ''{missing}''"
  by (simp_all add: buildUriSegment_def getParamName_def js_map_get_def widget_paramsByName
      sample_lib_simps parameter_names sample_snake_simps suffix_to_prefix)

lemma widget_buildUri:
  "buildUri sample_lib widget_service widgets_path getWidget_method = ''#{@api_root}/v1/widgets/#{id}''"
  by (simp add: buildUri_def widget_segments widget_buildUriSegment widget_version apiRoot_def
      sample_lib_simps sample_snake_simps)

lemma widget_definitionBody:
  "buildDefinitionBody sample_lib widget_service getWidget_http widgets_path getWidget_method
     = [''safe_internal_uri = URI('' @ [CHR 0x22] @ ''#{@api_root}/v1/widgets/#{id}'' @ [CHR 0x22] @ '')'',
        ''safe_internal_uri.query = URI.encode_www_form('',
        ''  {'',
        ''    'pageSize': page_size,'',
        ''  }.compact'',
        '')'',
        ''safe_internal_req = Net::HTTP::Get.new(safe_internal_uri)'',
        ''safe_internal_res = Net::HTTP.start(safe_internal_uri.hostname, safe_internal_uri.port) { |http| http.request(safe_internal_req) }'',
        ''map_dto_to_widget(JSON.parse(safe_internal_res.body))'']"
  by (simp add: buildDefinitionBody_def widget_buildUri widget_buildQuery widget_buildHeaders
      widget_buildBody widget_buildReturn getWidget_parameters uri_def req_def res_def
      getWidget_http_def sample_lib_simps sample_pascal_simps)

lemma widget_initializer:
  "buildInitializer sample_lib widget_interface
     = [''sig { params(api_root: String).void }'', ''def initialize(api_root:)'',
        ''  @api_root = api_root'', ''end'']"
  by (simp add: buildInitializer_def widget_interface_def ping_fields getWidget_parameters
      js_set_array_def apiRoot_def sample_lib_simps sample_snake_simps sample_block_def
      sample_indent_def)

lemma widget_sorted_methods:
  "js_sort (\<lambda>a b. sample_localeCompare (m_name a) (m_name b)) [ping_method, getWidget_method]
     = [getWidget_method, ping_method]"
  by (simp add: js_sort_def ping_fields getWidget_parameters)

theorem signature_parameter_order_witness:
  "getHttp sample_lib widget_service (m_name getWidget_method) = Some (getWidget_http, widgets_path)
   \<and> m_parameters getWidget_method = [pageSize_parameter, id_parameter]
   \<and> sortParameters sample_lib (m_parameters getWidget_method) = [id_parameter, pageSize_parameter]
   \<and> buildSignature sample_lib widget_service no_options getWidget_method
       = [''sig do'',
          ''  override.params('',
          ''    id: String,'',
          ''    page_size: T.nilable(Integer)'',
          ''  ).returns('',
          ''    Example::V1::Widget'',
          ''  )'',
          ''end'']
   \<and> hd (buildDefinition sample_lib widget_service no_options getWidget_method)
       = ''def get_widget(id:, page_size: nil)''
   \<and> buildClient sample_lib widget_service no_options widget_interface
       = [''# This code was generated by a tool.'', [], ''# typed: strict'', [],
          ''module Example::V1'',
          ''  class WidgetHttpClient'',
          ''    extend T::Sig'', [],
          ''    include Example::V1::WidgetService'',
          ''    include Example::V1::HttpClientHelpers'', [],
          ''    sig { params(api_root: String).void }'',
          ''    def initialize(api_root:)'',
          ''      @api_root = api_root'',
          ''    end'', [],
          ''    sig do'',
          ''      override.params('',
          ''        id: String,'',
          ''        page_size: T.nilable(Integer)'',
          ''      ).returns('',
          ''        Example::V1::Widget'',
          ''      )'',
          ''    end'',
          ''    def get_widget(id:, page_size: nil)'',
          ''      safe_internal_uri = URI('' @ [CHR 0x22] @ ''#{@api_root}/v1/widgets/#{id}'' @ [CHR 0x22] @ '')'',
          ''      safe_internal_uri.query = URI.encode_www_form('',
          ''        {'',
          ''          'pageSize': page_size,'',
          ''        }.compact'',
          ''      )'',
          ''      safe_internal_req = Net::HTTP::Get.new(safe_internal_uri)'',
          ''      safe_internal_res = Net::HTTP.start(safe_internal_uri.hostname, safe_internal_uri.port) { |http| http.request(safe_internal_req) }'',
          ''      map_dto_to_widget(JSON.parse(safe_internal_res.body))'',
          ''    end'', [],
          ''    sig { override.void }'',
          ''  end'',
          ''end'', []]"
proof -
  note inst = signature_parameter_order
    [of sample_lib getWidget_method widget_service no_options,
       where httpMethod = getWidget_http and httpPath = widgets_path]
  note inst_ping = signature_parameter_order
    [of sample_lib ping_method widget_service no_options,
       where httpMethod = getWidget_http and httpPath = widgets_path]
  have binding: "getHttp sample_lib widget_service (m_name getWidget_method)
                   = Some (getWidget_http, widgets_path)"
    by (simp add: getWidget_parameters widget_getHttp)
  have ordered: "orderedParameters sample_lib getWidget_method = [id_parameter, pageSize_parameter]"
    by (simp add: orderedParameters_def getWidget_parameters sample_required)
  have sorted: "sortParameters sample_lib (m_parameters getWidget_method) = [id_parameter, pageSize_parameter]"
    using inst ordered by simp
  have lines: "signatureParameterLines sample_lib widget_service no_options getWidget_method
                 = [''id: String,'', ''page_size: T.nilable(Integer)'']"
    by (simp add: signatureParameterLines_def ordered getWidget_parameters sample_required
        sample_lib_simps parameter_names sample_snake_simps sample_buildTypeName_def parameterType_def
        id_parameter_def pageSize_parameter_def)
  have return_type: "sample_buildTypeName widget_service no_options widget_returnType False
                 = ''Example::V1::Widget''"
    by (simp add: sample_buildTypeName_def widget_returnType_def
        sample_buildNamespace_def widget_version sample_pascal_simps)
  have signature: "buildSignature sample_lib widget_service no_options getWidget_method
       = [''sig do'',
          ''  override.params('',
          ''    id: String,'',
          ''    page_size: T.nilable(Integer)'',
          ''  ).returns('',
          ''    Example::V1::Widget'',
          ''  )'',
          ''end'']"
    using inst
    by (simp add: getWidget_parameters lines return_type sample_lib_simps sample_block_def
        sample_indent_def)
  have parameters: "definitionParameters sample_lib getWidget_method = ''(id:, page_size: nil)''"
    by (simp add: definitionParameters_def ordered getWidget_parameters sample_lib_simps
        sample_snake_simps id_parameter_def pageSize_parameter_def)
  have def_text: "buildDefinition sample_lib widget_service no_options getWidget_method
       = sample_block ''def get_widget(id:, page_size: nil)''
           (buildDefinitionBody sample_lib widget_service getWidget_http widgets_path getWidget_method)"
    using inst binding
    by (simp add: parameters sample_lib_simps getWidget_parameters sample_snake_simps)
  have head: "hd (buildDefinition sample_lib widget_service no_options getWidget_method)
       = ''def get_widget(id:, page_size: nil)''"
    by (simp add: def_text sample_block_def)
  have getWidget_lines: "buildClientMethod sample_lib widget_service no_options getWidget_method
       = [[]] @ buildSignature sample_lib widget_service no_options getWidget_method
         @ sample_block ''def get_widget(id:, page_size: nil)''
             (buildDefinitionBody sample_lib widget_service getWidget_http widgets_path getWidget_method)"
    using inst by (simp add: getWidget_parameters def_text)
  have ping_lines: "buildClientMethod sample_lib widget_service no_options ping_method
       = [[], ''sig { override.void }'']"
    using inst_ping
    by (simp add: ping_fields buildDefinition_def ping_getHttp)
  have client: "buildClient sample_lib widget_service no_options widget_interface
       = [''# This code was generated by a tool.'', [], ''# typed: strict'', [],
          ''module Example::V1'',
          ''  class WidgetHttpClient'',
          ''    extend T::Sig'', [],
          ''    include Example::V1::WidgetService'',
          ''    include Example::V1::HttpClientHelpers'', [],
          ''    sig { params(api_root: String).void }'',
          ''    def initialize(api_root:)'',
          ''      @api_root = api_root'',
          ''    end'', [],
          ''    sig do'',
          ''      override.params('',
          ''        id: String,'',
          ''        page_size: T.nilable(Integer)'',
          ''      ).returns('',
          ''        Example::V1::Widget'',
          ''      )'',
          ''    end'',
          ''    def get_widget(id:, page_size: nil)'',
          ''      safe_internal_uri = URI('' @ [CHR 0x22] @ ''#{@api_root}/v1/widgets/#{id}'' @ [CHR 0x22] @ '')'',
          ''      safe_internal_uri.query = URI.encode_www_form('',
          ''        {'',
          ''          'pageSize': page_size,'',
          ''        }.compact'',
          ''      )'',
          ''      safe_internal_req = Net::HTTP::Get.new(safe_internal_uri)'',
          ''      safe_internal_res = Net::HTTP.start(safe_internal_uri.hostname, safe_internal_uri.port) { |http| http.request(safe_internal_req) }'',
          ''      map_dto_to_widget(JSON.parse(safe_internal_res.body))'',
          ''    end'', [],
          ''    sig { override.void }'',
          ''  end'',
          ''end'', []]"
    unfolding buildClient_def Let_def widget_initializer
    by (simp add: widget_interface_def sample_lib_simps widget_sorted_methods getWidget_lines
        ping_lines signature widget_definitionBody magicComments_def comment_def no_options_simps
        sample_buildNamespace_def widget_version sample_pascal_simps buildMapperNamespace_def
        buildMapperName_def sample_block_def sample_indent_def)
  from binding sorted signature head client show ?thesis
    by (simp add: getWidget_parameters)
qed

section \<open>The request URI\<close>

lemma js_map_get_new:
  "js_map_get (js_map_new entries) k =
     (case filter (\<lambda>e. fst e = k) entries of [] \<Rightarrow> None | e # es \<Rightarrow> Some (snd (last (e # es))))"
  unfolding js_map_get_def js_map_new_def
  by (simp add: map_of_foldl_update [where kf = fst and vf = snd] split: list.splits)

lemma paramsByName_get:
  "js_map_get (paramsByName L service method) n =
     (case filter (\<lambda>p. p_name p = n) (m_parameters method) of
        [] \<Rightarrow> None
      | p # ps \<Rightarrow> Some (last (p # ps), getHttpParameter L service (m_name method) n))"
proof -
  let ?f = "\<lambda>p. (p_name p, (p, getHttpParameter L service (m_name method) (p_name p)))"
  have flt: "filter (\<lambda>e. fst e = n) (map ?f (m_parameters method))
               = map ?f (filter (\<lambda>p. p_name p = n) (m_parameters method))"
    by (simp add: filter_map comp_def)
  show ?thesis
  proof (cases "filter (\<lambda>p. p_name p = n) (m_parameters method)")
    case Nil
    then show ?thesis by (simp add: paramsByName_def js_map_get_new flt)
  next
    case (Cons p ps)
    have "last (p # ps) \<in> set (filter (\<lambda>p. p_name p = n) (m_parameters method))"
      unfolding Cons by (rule last_in_set) simp
    then have nm: "p_name (last (p # ps)) = n" by simp
    have "js_map_get (paramsByName L service method) n = Some (snd (last (map ?f (p # ps))))"
      by (simp add: paramsByName_def js_map_get_new flt Cons)
    also have "\<dots> = Some (last (p # ps), getHttpParameter L service (m_name method) n)"
      using nm by (auto simp add: last_map)
    finally show ?thesis by (simp add: Cons)
  qed
qed

lemma suffix_single: "suffix [x] ys \<longleftrightarrow> ys \<noteq> [] \<and> last ys = x"
  by (cases ys rule: rev_cases) (auto simp: suffix_def)

lemma getParamName_placeholderName: "getParamName seg = placeholderName seg"
proof (cases seg)
  case Nil
  then show ?thesis by (simp add: getParamName_def suffix_single)
next
  case (Cons c cs)
  have "drop 1 (take (length seg - 1) seg) = butlast cs" if "cs \<noteq> []"
  proof -
    from that obtain n where n: "length cs = Suc n"
      by (cases cs) auto
    show ?thesis
      by (simp add: Cons n butlast_conv_take)
  qed
  then show ?thesis
    using Cons by (auto simp add: getParamName_def suffix_single)
qed

lemma buildUriSegment_pathParameter:
  "buildUriSegment L service method seg =
     (case pathParameter L service method seg of
        Some param \<Rightarrow> ''#{'' @ buildParameterName L param @ ''}''
      | None \<Rightarrow> seg)"
  unfolding buildUriSegment_def pathParameter_def paramsByName_get getParamName_placeholderName
  by (simp split: option.splits list.splits)

lemma js_split_from_not_Nil: "js_split_from s acc str \<noteq> []"
  by (induction s acc str rule: js_split_from.induct) simp_all

lemma js_join_Cons: "ys \<noteq> [] \<Longrightarrow> js_join s (x # ys) = x @ s @ js_join s ys"
  by (cases ys) simp_all

lemma js_join_split_from: "js_join s (js_split_from s acc str) = acc @ str"
proof (induction s acc str rule: js_split_from.induct)
  case (1 s acc)
  show ?case by simp
next
  case (2 s acc c cs)
  show ?case
  proof (cases "s \<noteq> [] \<and> prefix s (c # cs)")
    case True
    then obtain zs where zs: "c # cs = s @ zs" by (auto simp: prefix_def)
    have rest: "s @ drop (length s) (c # cs) = c # cs"
      unfolding zs by simp
    have unfold: "js_split_from s acc (c # cs) = acc # js_split_from s [] (drop (length s) (c # cs))"
      using True by simp
    have ih: "js_join s (js_split_from s [] (drop (length s) (c # cs))) = drop (length s) (c # cs)"
      using True 2 by simp
    have "js_join s (js_split_from s acc (c # cs))
            = acc @ s @ js_join s (js_split_from s [] (drop (length s) (c # cs)))"
      unfolding unfold by (rule js_join_Cons) (rule js_split_from_not_Nil)
    also have "\<dots> = acc @ s @ drop (length s) (c # cs)"
      unfolding ih ..
    also have "\<dots> = acc @ c # cs"
      unfolding rest ..
    finally show ?thesis .
  next
    case False
    then have unfold: "js_split_from s acc (c # cs) = js_split_from s (acc @ [c]) cs"
      by auto
    from False 2 have "js_join s (js_split_from s (acc @ [c]) cs) = (acc @ [c]) @ cs"
      by blast
    then show ?thesis unfolding unfold by simp
  qed
qed

lemma js_join_split: "js_join s (js_split s str) = str"
  by (simp add: js_split_def js_join_split_from)

lemma buildUri_substitutedPath:
  "buildUri L service httpPath method
     = ''#{@'' @ snake L ''apiRoot'' @ ''}/v'' @ show_nat (majorVersion service)
       @ substitutedPath L service method (hp_path httpPath)"
proof -
  have "buildUriSegment L service method
          = (\<lambda>seg. case pathParameter L service method seg of
                     Some param \<Rightarrow> ''#{'' @ buildParameterName L param @ ''}''
                   | None \<Rightarrow> seg)"
    by (rule ext) (rule buildUriSegment_pathParameter)
  then show ?thesis
    by (simp add: buildUri_def substitutedPath_def apiRoot_def Let_def)
qed

lemma substitutedPath_literal:
  assumes "\<forall>seg \<in> set (js_split ''/'' template). pathParameter L service method seg = None"
  shows "substitutedPath L service method template = template"
proof -
  from assms have "map (\<lambda>seg. case pathParameter L service method seg of
                          Some param \<Rightarrow> ''#{'' @ buildParameterName L param @ ''}''
                        | None \<Rightarrow> seg) (js_split ''/'' template)
                    = js_split ''/'' template"
    by (simp add: map_idI)
  then show ?thesis
    by (simp add: substitutedPath_def js_join_split)
qed

text \<open>
  Claim C6.  The URI that the generated method opens is the base root \<open>#{@api_root}\<close>, then
  \<open>/v\<close> and the major version, then the path template in which every segment \<open>:name\<close> or
  \<open>{name}\<close> that names a parameter of the method whose binding resolves to the location
  \<open>path\<close> is replaced by the interpolation \<open>#{parameter}\<close> of that parameter, while every
  other segment is kept as it is.  Both forms of placeholder hold the name they show, a
  template without a resolving placeholder is kept whole, and the interpolation that replaces
  a segment is not a placeholder itself.
\<close>

theorem buildUri_substitution:
  "buildUri L service httpPath method
     = ''#{@'' @ snake L ''apiRoot'' @ ''}/v'' @ show_nat (majorVersion service)
       @ substitutedPath L service method (hp_path httpPath)
   \<and> hd (buildDefinitionBody L service httpMethod httpPath method)
       = ''safe_internal_uri = URI('' @ [CHR 0x22] @ buildUri L service httpPath method @ [CHR 0x22] @ '')''
   \<and> placeholderName ('':'' @ name) = Some name
   \<and> placeholderName (''{'' @ name @ ''}'') = Some name
   \<and> ((\<forall>seg \<in> set (js_split ''/'' (hp_path httpPath)). pathParameter L service method seg = None) \<longrightarrow>
        substitutedPath L service method (hp_path httpPath) = hp_path httpPath)
   \<and> placeholderName (''#{'' @ buildParameterName L param @ ''}'') = None"
proof (intro conjI impI)
  show "buildUri L service httpPath method
     = ''#{@'' @ snake L ''apiRoot'' @ ''}/v'' @ show_nat (majorVersion service)
       @ substitutedPath L service method (hp_path httpPath)"
    by (rule buildUri_substitutedPath)
  show "hd (buildDefinitionBody L service httpMethod httpPath method)
       = ''safe_internal_uri = URI('' @ [CHR 0x22] @ buildUri L service httpPath method @ [CHR 0x22] @ '')''"
    by (simp add: buildDefinitionBody_def uri_def)
  show "placeholderName ('':'' @ name) = Some name"
    by simp
  show "placeholderName (''{'' @ name @ ''}'') = Some name"
    by (simp add: butlast_append)
  show "placeholderName (''#{'' @ buildParameterName L param @ ''}'') = None"
    by simp
next
  assume "\<forall>seg \<in> set (js_split ''/'' (hp_path httpPath)). pathParameter L service method seg = None"
  then show "substitutedPath L service method (hp_path httpPath) = hp_path httpPath"
    by (rule substitutedPath_literal)
qed

lemma widget_pathParameter:
  "pathParameter sample_lib widget_service getWidget_method [] = None"
  "pathParameter sample_lib widget_service getWidget_method ''widgets'' = None"
  "pathParameter sample_lib widget_service getWidget_method ''v2'' = None"
  "pathParameter sample_lib widget_service getWidget_method '':id'' = Some id_parameter"
  "pathParameter sample_lib widget_service getWidget_method ''{id}'' = Some id_parameter"
  "pathParameter sample_lib widget_service getWidget_method '':pageSize'' = None"
  "pathParameter sample_lib widget_service getWidget_method ''{missing}'' = None"
  by (simp_all add: pathParameter_def getWidget_parameters widget_getHttpParameter parameter_names)

theorem buildUri_substitution_witness:
  "buildUri sample_lib widget_service widgets_path getWidget_method = ''#{@api_root}/v1/widgets/#{id}''
   \<and> hd (buildDefinitionBody sample_lib widget_service getWidget_http widgets_path getWidget_method)
       = ''safe_internal_uri = URI('' @ [CHR 0x22] @ ''#{@api_root}/v1/widgets/#{id}'' @ [CHR 0x22] @ '')''
   \<and> hp_path braces_path = ''/widgets/{id}/:pageSize/{missing}''
   \<and> buildUri sample_lib widget_service braces_path getWidget_method
       = ''#{@api_root}/v1/widgets/#{id}/:pageSize/{missing}''
   \<and> js_split ''/'' (hp_path second_path) = [[], ''v2'', ''widgets'']
   \<and> pathParameter sample_lib widget_service getWidget_method [] = None
   \<and> pathParameter sample_lib widget_service getWidget_method ''v2'' = None
   \<and> pathParameter sample_lib widget_service getWidget_method ''widgets'' = None
   \<and> buildUri sample_lib widget_service second_path getWidget_method = ''#{@api_root}/v1/v2/widgets''"
proof -
  note colon = buildUri_substitution
    [of sample_lib widget_service widgets_path getWidget_method,
       where httpMethod = getWidget_http and param = id_parameter and name = "''id''"]
  note braces = buildUri_substitution
    [of sample_lib widget_service braces_path getWidget_method,
       where httpMethod = getWidget_http and param = id_parameter and name = "''id''"]
  note plain = buildUri_substitution
    [of sample_lib widget_service second_path getWidget_method,
       where httpMethod = getWidget_http and param = id_parameter and name = "''id''"]
  have uri_colon: "buildUri sample_lib widget_service widgets_path getWidget_method
                     = ''#{@api_root}/v1/widgets/#{id}''"
    using colon
    by (simp add: substitutedPath_def widget_segments widget_pathParameter widget_version
        sample_lib_simps sample_snake_simps parameter_names)
  have first_line: "hd (buildDefinitionBody sample_lib widget_service getWidget_http widgets_path
                          getWidget_method)
       = ''safe_internal_uri = URI('' @ [CHR 0x22] @ ''#{@api_root}/v1/widgets/#{id}'' @ [CHR 0x22] @ '')''"
    using colon by (simp add: uri_colon)
  have template: "hp_path braces_path = ''/widgets/{id}/:pageSize/{missing}''"
    by (simp add: braces_path_def)
  have uri_braces: "buildUri sample_lib widget_service braces_path getWidget_method
                     = ''#{@api_root}/v1/widgets/#{id}/:pageSize/{missing}''"
    using braces
    by (simp add: substitutedPath_def widget_segments widget_pathParameter widget_version
        sample_lib_simps sample_snake_simps parameter_names)
  have literal: "substitutedPath sample_lib widget_service getWidget_method (hp_path second_path)
                     = hp_path second_path"
    using plain by (simp add: widget_segments widget_pathParameter)
  have "buildUri sample_lib widget_service second_path getWidget_method
          = ''#{@api_root}/v1'' @ substitutedPath sample_lib widget_service getWidget_method
                                    (hp_path second_path)"
    using plain by (simp add: widget_version sample_lib_simps sample_snake_simps)
  also have "\<dots> = ''#{@api_root}/v1'' @ hp_path second_path"
    unfolding literal ..
  also have "\<dots> = ''#{@api_root}/v1/v2/widgets''"
    by (simp add: second_path_def)
  finally have uri_plain: "buildUri sample_lib widget_service second_path getWidget_method
                     = ''#{@api_root}/v1/v2/widgets''" .
  from uri_colon first_line template uri_braces uri_plain show ?thesis
    by (simp add: widget_segments widget_pathParameter)
qed

section \<open>The mapper\<close>

lemma typesOverride_configuredCaster: "typesOverride L options typeName = configuredCaster L options typeName"
proof (cases "o_types options")
  case None
  then show ?thesis by (simp add: typesOverride_def configuredCaster_def)
next
  case (Some own)
  then show ?thesis
    by (cases "own typeName") (auto simp add: typesOverride_def configuredCaster_def)
qed

lemma append_around_neq: "xs \<noteq> [] \<Longrightarrow> xs @ field @ ys \<noteq> field"
proof
  assume "xs \<noteq> []" and "xs @ field @ ys = field"
  then have "length (xs @ field @ ys) = length field" by simp
  with \<open>xs \<noteq> []\<close> show False by simp
qed

lemma conversionTable_before: "(typeName, before, after) \<in> set conversionTable \<Longrightarrow> before \<noteq> []"
  by (auto simp add: conversionTable_def)

lemma conversion_neq:
  assumes "conversion typeName field = Some converted"
  shows "converted \<noteq> field"
proof -
  from assms obtain before after
    where entry: "map_of conversionTable typeName = Some (before, after)"
      and converted: "converted = before @ field @ after"
    by (auto simp add: conversion_def split: option.splits)
  from entry have "(typeName, before, after) \<in> set conversionTable"
    by (rule map_of_SomeD)
  then have "before \<noteq> []"
    by (rule conversionTable_before)
  then show ?thesis
    unfolding converted by (rule append_around_neq)
qed

lemma switch_conversion:
  "(if typeName = ''boolean'' then ''ActiveModel::Type::Boolean.new.cast('' @ field @ '')''
    else if typeName = ''date'' then ''Date.parse('' @ field @ '')''
    else if typeName = ''date-time'' then ''DateTime.parse('' @ field @ '')''
    else if typeName = ''double'' \<or> typeName = ''float'' \<or> typeName = ''number''
      then ''Float('' @ field @ '')''
    else if typeName = ''integer'' \<or> typeName = ''long''
      then ''Integer('' @ field @ '', 10)''
    else field)
   = (case conversion typeName field of None \<Rightarrow> field | Some converted \<Rightarrow> converted)"
proof -
  consider (boolean) "typeName = ''boolean''" | (date) "typeName = ''date''"
    | (date_time) "typeName = ''date-time''" | (double) "typeName = ''double''"
    | (float) "typeName = ''float''" | (number) "typeName = ''number''"
    | (integer) "typeName = ''integer''" | (long) "typeName = ''long''"
    | (other) "typeName \<noteq> ''boolean''" "typeName \<noteq> ''date''" "typeName \<noteq> ''date-time''"
        "typeName \<noteq> ''double''" "typeName \<noteq> ''float''" "typeName \<noteq> ''number''"
        "typeName \<noteq> ''integer''" "typeName \<noteq> ''long''"
    by blast
  then show ?thesis
  proof cases
    case boolean then show ?thesis by (simp add: conversion_def conversionTable_def)
  next
    case date then show ?thesis by (simp add: conversion_def conversionTable_def)
  next
    case date_time then show ?thesis by (simp add: conversion_def conversionTable_def)
  next
    case double then show ?thesis by (simp add: conversion_def conversionTable_def)
  next
    case float then show ?thesis by (simp add: conversion_def conversionTable_def)
  next
    case number then show ?thesis by (simp add: conversion_def conversionTable_def)
  next
    case integer then show ?thesis by (simp add: conversion_def conversionTable_def)
  next
    case long then show ?thesis by (simp add: conversion_def conversionTable_def)
  next
    case other then show ?thesis by (simp add: conversion_def conversionTable_def)
  qed
qed

lemma buildPrimitiveCast_conversion:
  "configuredCaster L options typeName = None \<Longrightarrow>
   buildPrimitiveCast L options typeName field
     = (case conversion typeName field of None \<Rightarrow> field | Some converted \<Rightarrow> converted)"
  unfolding buildPrimitiveCast_def typesOverride_configuredCaster
  by (simp only: option.case switch_conversion)

lemma buildPropCast_wireToDomainCast:
  "buildPropCast L options (prop_typeName q) (prop_isPrimitive q) field
     = wireToDomainCast L options q field"
proof (cases "prop_isPrimitive q")
  case False
  then show ?thesis by (simp add: buildPropCast_def wireToDomainCast_def)
next
  case True
  show ?thesis
  proof (cases "configuredCaster L options (prop_typeName q)")
    case (Some caster)
    with True show ?thesis
      by (simp add: buildPropCast_def wireToDomainCast_def typesOverride_configuredCaster)
  next
    case None
    show ?thesis
    proof (cases "conversion (prop_typeName q) field")
      case no_conversion: None
      with True None show ?thesis
        by (simp add: buildPropCast_def wireToDomainCast_def typesOverride_configuredCaster
            buildPrimitiveCast_conversion)
    next
      case (Some converted)
      with True None conversion_neq [OF Some] show ?thesis
        by (simp add: buildPropCast_def wireToDomainCast_def typesOverride_configuredCaster
            buildPrimitiveCast_conversion)
    qed
  qed
qed

lemma buildDtoPropCast_domainToWireCast:
  "buildDtoPropCast L options (prop_typeName q) (prop_isPrimitive q) field
     = domainToWireCast L q field"
  by (simp add: buildDtoPropCast_def domainToWireCast_def)

lemma dtoToStruct_wireToDomainMethod:
  "dtoToStruct L service options t = wireToDomainMethod L service options t"
proof -
  have line: "(if prop_isArray q
               then buildPropertyName L q @ '': dto['' @ [CHR 0x27] @ prop_name q
                    @ [CHR 0x27] @ '']&.map { |item| ''
                    @ buildPropCast L options (prop_typeName q) (prop_isPrimitive q) ''item''
                    @ '' }'' @ (if Suc i < n then '','' else [])
               else buildPropertyName L q @ '': ''
                    @ buildPropCast L options (prop_typeName q) (prop_isPrimitive q)
                        (''dto['' @ [CHR 0x27] @ prop_name q @ [CHR 0x27] @ '']'')
                    @ (if Suc i < n then '','' else []))
              = wireToDomainLine L options n i q" for i n q
    unfolding wireToDomainLine_def buildPropCast_wireToDomainCast by (cases "prop_isArray q") simp_all
  show ?thesis
    unfolding dtoToStruct_def wireToDomainMethod_def failOpenMethod_def buildMapperTypeName_def
      Let_def line
    by simp
qed

lemma structToDto_domainToWireMethod:
  "structToDto L service options t = domainToWireMethod L t"
proof -
  have line: "(if prop_isArray q
               then [CHR 0x27] @ prop_name q @ [CHR 0x27] @ '': '' @ v @ ''.''
                    @ buildPropertyName L q @ ''&.map { |item| ''
                    @ buildDtoPropCast L options (prop_typeName q) (prop_isPrimitive q) ''item''
                    @ '' },''
               else [CHR 0x27] @ prop_name q @ [CHR 0x27] @ '': ''
                    @ buildDtoPropCast L options (prop_typeName q) (prop_isPrimitive q)
                        (v @ ''.'' @ buildPropertyName L q)
                    @ '','')
              = domainToWireLine L v q" for v q
    unfolding domainToWireLine_def buildDtoPropCast_domainToWireCast by (cases "prop_isArray q") simp_all
  show ?thesis
    unfolding structToDto_def domainToWireMethod_def failOpenMethod_def line
    by simp
qed

lemma dtoToEnum_enumWireToDomainMethod:
  "dtoToEnum L service options e = enumWireToDomainMethod L service options e"
  by (simp add: dtoToEnum_def enumWireToDomainMethod_def failOpenMethod_def buildMapperTypeName_def)

lemma enumToDto_enumDomainToWireMethod:
  "enumToDto L service options e = enumDomainToWireMethod L e"
  by (simp add: enumToDto_def enumDomainToWireMethod_def failOpenMethod_def)

lemma separated_blank_lines:
  "separated chunks = (if chunks = [] then [] else hd chunks @ concat (map (\<lambda>chunk. [] # chunk) (tl chunks)))"
  by (induction chunks rule: separated.induct) simp_all

lemma buildMapper_text:
  "buildMapper L service options
     = [warning L service, []]
       @ (if o_magicComments options = [] then []
          else map (\<lambda>magicComment. ''# '' @ magicComment) (o_magicComments options) @ [[]])
       @ block L (''module '' @ buildNamespace L None service options)
           (block L (''module '' @ pascal L ''HttpClientHelpers'')
              (separated
                 (map (\<lambda>t. wireToDomainMethod L service options t @ [[]] @ domainToWireMethod L t)
                    (types service)
                  @ map (\<lambda>e. enumWireToDomainMethod L service options e @ [[]]
                               @ enumDomainToWireMethod L e)
                      (enums service))))
       @ [[]]"
  by (simp add: buildMapper_def mapperChunks_def castPrimitive_def castPrimitiveArray_def
      buildMapperName_def dtoToStruct_wireToDomainMethod structToDto_domainToWireMethod
      dtoToEnum_enumWireToDomainMethod enumToDto_enumDomainToWireMethod)

text \<open>
  The text of the mapper artifact.  It consists of exactly the four kinds of mapping method,
  wire to domain and domain to wire for every type and for every enum, separated by blank
  lines.  Each of them has the fail-open shape: after its body comes the method-level clause
  \<open>rescue StandardError\<close> whose only expression is the method's own parameter.  The body
  of the wire-to-domain method of an enum is the call \<open>deserialize(dto)\<close> on the enum.  The
  theorem fixes the text the generator emits; what that text does when Ruby runs it is
  outside the generator.
\<close>

theorem buildMapper_fail_open_text:
  "buildMapper L service options
     = [warning L service, []]
       @ (if o_magicComments options = [] then []
          else map (\<lambda>magicComment. ''# '' @ magicComment) (o_magicComments options) @ [[]])
       @ block L (''module '' @ buildNamespace L None service options)
           (block L (''module '' @ pascal L ''HttpClientHelpers'')
              (let methods =
                     map (\<lambda>t. wireToDomainMethod L service options t @ [[]] @ domainToWireMethod L t)
                       (types service)
                     @ map (\<lambda>e. enumWireToDomainMethod L service options e @ [[]]
                                  @ enumDomainToWireMethod L e)
                         (enums service)
               in if methods = [] then []
                  else hd methods @ concat (map (\<lambda>chunk. [] # chunk) (tl methods))))
       @ [[]]
   \<and> f_contents (last (generator L service options)) = js_join [CHR 0x0A] (buildMapper L service options)
   \<and> enumWireToDomainMethod L service options e
       = [''def map_dto_to_'' @ snake L (e_name e) @ ''(dto)'']
         @ indent L [buildTypeName L service options
                       \<lparr> tv_typeName = e_name e, tv_isPrimitive = False, tv_isArray = False,
                         tv_rules = [] \<rparr> True
                     @ ''.deserialize(dto)'']
         @ [''rescue StandardError'']
         @ indent L [''dto'']
         @ [''end'']"
proof (intro conjI)
  show "buildMapper L service options
     = [warning L service, []]
       @ (if o_magicComments options = [] then []
          else map (\<lambda>magicComment. ''# '' @ magicComment) (o_magicComments options) @ [[]])
       @ block L (''module '' @ buildNamespace L None service options)
           (block L (''module '' @ pascal L ''HttpClientHelpers'')
              (let methods =
                     map (\<lambda>t. wireToDomainMethod L service options t @ [[]] @ domainToWireMethod L t)
                       (types service)
                     @ map (\<lambda>e. enumWireToDomainMethod L service options e @ [[]]
                                  @ enumDomainToWireMethod L e)
                         (enums service)
               in if methods = [] then []
                  else hd methods @ concat (map (\<lambda>chunk. [] # chunk) (tl methods))))
       @ [[]]"
    unfolding buildMapper_text Let_def separated_blank_lines ..
  show "f_contents (last (generator L service options)) = js_join [CHR 0x0A] (buildMapper L service options)"
    by (simp add: generator_def generateMapper_def buildMapperFile_def from_lines_def)
  show "enumWireToDomainMethod L service options e
       = [''def map_dto_to_'' @ snake L (e_name e) @ ''(dto)'']
         @ indent L [buildTypeName L service options
                       \<lparr> tv_typeName = e_name e, tv_isPrimitive = False, tv_isArray = False,
                         tv_rules = [] \<rparr> True
                     @ ''.deserialize(dto)'']
         @ [''rescue StandardError'']
         @ indent L [''dto'']
         @ [''end'']"
    by (simp add: enumWireToDomainMethod_def failOpenMethod_def)
qed

text \<open>The mapper of the example service, line by line.\<close>

lemma widget_type_fields:
  "t_name widget_type = ''widget''"
  "t_properties widget_type
     = [id_property, count_property, created_property, sizes_property, color_property]"
  by (simp_all add: widget_type_def)

lemma property_fields:
  "prop_name id_property = ''id''" "prop_typeName id_property = ''string''"
  "\<not> prop_isArray id_property" "prop_isPrimitive id_property"
  "prop_name count_property = ''count''" "prop_typeName count_property = ''integer''"
  "\<not> prop_isArray count_property" "prop_isPrimitive count_property"
  "prop_name created_property = ''created''" "prop_typeName created_property = ''date''"
  "\<not> prop_isArray created_property" "prop_isPrimitive created_property"
  "prop_name sizes_property = ''sizes''" "prop_typeName sizes_property = ''integer''"
  "prop_isArray sizes_property" "prop_isPrimitive sizes_property"
  "prop_name color_property = ''color''" "prop_typeName color_property = ''color''"
  "\<not> prop_isArray color_property" "\<not> prop_isPrimitive color_property"
  by (simp_all add: id_property_def count_property_def created_property_def sizes_property_def
      color_property_def)

lemma conversion_simps:
  "conversion ''string'' field = None"
  "conversion ''integer'' field = Some (''Integer('' @ field @ '', 10)'')"
  "conversion ''date'' field = Some (''Date.parse('' @ field @ '')'')"
  by (simp_all add: conversion_def conversionTable_def)

lemma configuredCaster_simps:
  "configuredCaster sample_lib no_options typeName = None"
  "configuredCaster sample_lib caster_options ''string'' = None"
  "configuredCaster sample_lib caster_options ''integer'' = Some ''to_int''"
  "configuredCaster sample_lib caster_options ''date'' = Some ''to_date''"
  "configuredCaster sample_lib caster_options ''constructor''
     = Some ''function Object() { [native code] }''"
  by (simp_all add: configuredCaster_def no_options_simps caster_options_simps sample_lib_simps
      sample_inheritedProperty_def)

lemma widget_mapper_type_names:
  "sample_buildTypeName widget_service options
     \<lparr> tv_typeName = ''widget'', tv_isPrimitive = False, tv_isArray = False, tv_rules = [] \<rparr> True
     = ''Example::V1::Widget''"
  "sample_buildTypeName widget_service options
     \<lparr> tv_typeName = ''color'', tv_isPrimitive = False, tv_isArray = False, tv_rules = [] \<rparr> True
     = ''Example::V1::Color''"
  by (simp_all add: sample_buildTypeName_def sample_buildNamespace_def widget_version
      sample_pascal_simps)

lemma widget_wireToDomainMethod_default:
  "wireToDomainMethod sample_lib widget_service no_options widget_type
     = [''def map_dto_to_widget(dto)'',
        ''  Example::V1::Widget.new('',
        ''    id: dto['id'],'',
        ''    count: dto['count'].is_a?(String) ? Integer(dto['count'], 10) : dto['count'],'',
        ''    created: dto['created'].is_a?(String) ? Date.parse(dto['created']) : dto['created'],'',
        ''    sizes: dto['sizes']&.map { |item| item.is_a?(String) ? Integer(item, 10) : item },'',
        ''    color: map_dto_to_color(dto['color'])'',
        ''  )'',
        ''rescue StandardError'',
        ''  dto'',
        ''end'']"
  by (simp add: wireToDomainMethod_def failOpenMethod_def wireToDomainLine_def wireToDomainCast_def
      widget_type_fields property_fields conversion_simps configuredCaster_simps sample_lib_simps
      sample_snake_simps widget_mapper_type_names sample_indent_def)

lemma widget_wireToDomainMethod_casters:
  "wireToDomainMethod sample_lib widget_service caster_options widget_type
     = [''def map_dto_to_widget(dto)'',
        ''  Example::V1::Widget.new('',
        ''    id: dto['id'],'',
        ''    count: to_int(dto['count'].to_s),'',
        ''    created: to_date(dto['created'].to_s),'',
        ''    sizes: dto['sizes']&.map { |item| to_int(item.to_s) },'',
        ''    color: map_dto_to_color(dto['color'])'',
        ''  )'',
        ''rescue StandardError'',
        ''  dto'',
        ''end'']"
  by (simp add: wireToDomainMethod_def failOpenMethod_def wireToDomainLine_def wireToDomainCast_def
      widget_type_fields property_fields conversion_simps configuredCaster_simps sample_lib_simps
      sample_snake_simps widget_mapper_type_names sample_indent_def)

lemma widget_domainToWireMethod:
  "domainToWireMethod sample_lib widget_type
     = [''def map_widget_to_dto(widget)'',
        ''  {'',
        ''    'id': widget.id,'',
        ''    'count': widget.count,'',
        ''    'created': widget.created&.to_s,'',
        ''    'sizes': widget.sizes&.map { |item| item },'',
        ''    'color': map_color_to_dto(widget.color),'',
        ''  }.compact'',
        ''rescue StandardError'',
        ''  widget'',
        ''end'']"
  by (simp add: domainToWireMethod_def failOpenMethod_def domainToWireLine_def domainToWireCast_def
      widget_type_fields property_fields sample_lib_simps sample_snake_simps sample_indent_def)

lemma color_enum_methods:
  "enumWireToDomainMethod sample_lib widget_service options color_enum
     = [''def map_dto_to_color(dto)'', ''  Example::V1::Color.deserialize(dto)'',
        ''rescue StandardError'', ''  dto'', ''end'']"
  "enumDomainToWireMethod sample_lib color_enum
     = [''def map_color_to_dto(enum)'', ''  enum&.serialize'',
        ''rescue StandardError'', ''  enum'', ''end'']"
  by (simp_all add: enumWireToDomainMethod_def enumDomainToWireMethod_def failOpenMethod_def
      color_enum_def sample_lib_simps sample_snake_simps widget_mapper_type_names sample_indent_def)

lemma widget_service_fields:
  "types widget_service = [widget_type]"
  "enums widget_service = [color_enum]"
  "interfaces widget_service = [widget_interface]"
  by (simp_all add: widget_service_def)

theorem widget_buildMapper_text:
  "buildMapper sample_lib widget_service no_options
     = [''# This code was generated by a tool.'', [],
        ''module Example::V1'',
        ''  module HttpClientHelpers'',
        ''    def map_dto_to_widget(dto)'',
        ''      Example::V1::Widget.new('',
        ''        id: dto['id'],'',
        ''        count: dto['count'].is_a?(String) ? Integer(dto['count'], 10) : dto['count'],'',
        ''        created: dto['created'].is_a?(String) ? Date.parse(dto['created']) : dto['created'],'',
        ''        sizes: dto['sizes']&.map { |item| item.is_a?(String) ? Integer(item, 10) : item },'',
        ''        color: map_dto_to_color(dto['color'])'',
        ''      )'',
        ''    rescue StandardError'',
        ''      dto'',
        ''    end'', [],
        ''    def map_widget_to_dto(widget)'',
        ''      {'',
        ''        'id': widget.id,'',
        ''        'count': widget.count,'',
        ''        'created': widget.created&.to_s,'',
        ''        'sizes': widget.sizes&.map { |item| item },'',
        ''        'color': map_color_to_dto(widget.color),'',
        ''      }.compact'',
        ''    rescue StandardError'',
        ''      widget'',
        ''    end'', [],
        ''    def map_dto_to_color(dto)'',
        ''      Example::V1::Color.deserialize(dto)'',
        ''    rescue StandardError'',
        ''      dto'',
        ''    end'', [],
        ''    def map_color_to_dto(enum)'',
        ''      enum&.serialize'',
        ''    rescue StandardError'',
        ''      enum'',
        ''    end'',
        ''  end'',
        ''end'', []]"
  using buildMapper_fail_open_text
    [where L = sample_lib and service = widget_service and options = no_options and e = color_enum]
  by (simp add: Let_def widget_service_fields widget_wireToDomainMethod_default
      widget_domainToWireMethod color_enum_methods no_options_simps sample_lib_simps
      sample_buildNamespace_def widget_version sample_pascal_simps sample_block_def
      sample_indent_def)

section \<open>Custom casters\<close>

lemma widget_dtoToStruct_casters:
  "dtoToStruct sample_lib widget_service caster_options widget_type
     = [''def map_dto_to_widget(dto)'',
        ''  Example::V1::Widget.new('',
        ''    id: dto['id'],'',
        ''    count: to_int(dto['count'].to_s),'',
        ''    created: to_date(dto['created'].to_s),'',
        ''    sizes: dto['sizes']&.map { |item| to_int(item.to_s) },'',
        ''    color: map_dto_to_color(dto['color'])'',
        ''  )'',
        ''rescue StandardError'',
        ''  dto'',
        ''end'']"
  by (simp add: dtoToStruct_wireToDomainMethod widget_wireToDomainMethod_casters)

lemma widget_structToDto:
  "structToDto sample_lib widget_service options widget_type
     = [''def map_widget_to_dto(widget)'',
        ''  {'',
        ''    'id': widget.id,'',
        ''    'count': widget.count,'',
        ''    'created': widget.created&.to_s,'',
        ''    'sizes': widget.sizes&.map { |item| item },'',
        ''    'color': map_color_to_dto(widget.color),'',
        ''  }.compact'',
        ''rescue StandardError'',
        ''  widget'',
        ''end'']"
  by (simp add: structToDto_domainToWireMethod widget_domainToWireMethod)

text \<open>
  Claim C4, as stated, fails: with the caster \<open>to_date\<close> configured for \<open>date\<close>, the
  domain-to-wire cast of a \<open>date\<close> property is still the default \<open>&.to_s\<close> and does not
  call the caster, and no line of the generated domain-to-wire method mentions it.
\<close>

theorem domain_to_wire_ignores_caster:
  "o_types caster_options = Some [''date'' \<mapsto> ''to_date'', ''integer'' \<mapsto> ''to_int'']
   \<and> buildDtoPropCast sample_lib caster_options ''date'' True ''widget.created'' = ''widget.created&.to_s''
   \<and> \<not> appliesCaster ''to_date'' (buildDtoPropCast sample_lib caster_options ''date'' True ''widget.created'')
   \<and> structToDto sample_lib widget_service caster_options widget_type
       = [''def map_widget_to_dto(widget)'',
          ''  {'',
          ''    'id': widget.id,'',
          ''    'count': widget.count,'',
          ''    'created': widget.created&.to_s,'',
          ''    'sizes': widget.sizes&.map { |item| item },'',
          ''    'color': map_color_to_dto(widget.color),'',
          ''  }.compact'',
          ''rescue StandardError'',
          ''  widget'',
          ''end'']"
  by (simp add: caster_options_simps buildDtoPropCast_def appliesCaster_def widget_structToDto)

text \<open>
  Claim C4, amended.  The generated wire-to-domain method of a type casts each property as
  \<open>wireToDomainCast\<close> says, and the generated domain-to-wire method as \<open>domainToWireCast\<close>
  says, which does not take the options.  So when the \<open>types\<close> option maps the type name of a
  primitive property to a non-empty caster identifier, the wire-to-domain cast of that
  property is the call \<open>caster(field.to_s)\<close> in place of the default rule, and the
  domain-to-wire method is the same under all options.  A property that is not primitive is
  cast by the \<open>map_dto_to_\<close> and \<open>map_..._to_dto\<close> methods of its type in either direction.
\<close>

theorem caster_replaces_wire_to_domain_cast:
  "dtoToStruct L service options t = wireToDomainMethod L service options t
   \<and> structToDto L service options t = domainToWireMethod L t
   \<and> (prop_isPrimitive p \<and> o_types options = Some own \<and> own (prop_typeName p) = Some caster
        \<and> caster \<noteq> [] \<longrightarrow>
        wireToDomainCast L options p field = caster @ ''('' @ field @ ''.to_s)''
        \<and> appliesCaster caster (wireToDomainCast L options p field))
   \<and> (\<not> prop_isPrimitive p \<longrightarrow>
        wireToDomainCast L options p field = ''map_dto_to_'' @ snake L (prop_typeName p) @ ''('' @ field @ '')''
        \<and> domainToWireCast L p field = ''map_'' @ snake L (prop_typeName p) @ ''_to_dto('' @ field @ '')'')"
proof (intro conjI impI)
  show "dtoToStruct L service options t = wireToDomainMethod L service options t"
    by (rule dtoToStruct_wireToDomainMethod)
  show "structToDto L service options t = domainToWireMethod L t"
    by (rule structToDto_domainToWireMethod)
next
  assume h: "prop_isPrimitive p \<and> o_types options = Some own \<and> own (prop_typeName p) = Some caster
        \<and> caster \<noteq> []"
  then have "configuredCaster L options (prop_typeName p) = Some caster"
    by (auto simp add: configuredCaster_def)
  with h show cast: "wireToDomainCast L options p field = caster @ ''('' @ field @ ''.to_s)''"
    by (simp add: wireToDomainCast_def)
  show "appliesCaster caster (wireToDomainCast L options p field)"
    unfolding cast by (simp add: appliesCaster_def)
next
  assume "\<not> prop_isPrimitive p"
  then show "wireToDomainCast L options p field
                = ''map_dto_to_'' @ snake L (prop_typeName p) @ ''('' @ field @ '')''"
    and "domainToWireCast L p field = ''map_'' @ snake L (prop_typeName p) @ ''_to_dto('' @ field @ '')''"
    by (simp_all add: wireToDomainCast_def domainToWireCast_def)
qed

theorem caster_replaces_wire_to_domain_cast_witness:
  "(prop_isPrimitive count_property
    \<and> o_types caster_options = Some [''date'' \<mapsto> ''to_date'', ''integer'' \<mapsto> ''to_int'']
    \<and> [''date'' \<mapsto> ''to_date'', ''integer'' \<mapsto> ''to_int''] (prop_typeName count_property) = Some ''to_int''
    \<and> ''to_int'' \<noteq> [])
   \<and> wireToDomainCast sample_lib caster_options count_property ''item'' = ''to_int(item.to_s)''
   \<and> \<not> prop_isPrimitive color_property
   \<and> domainToWireCast sample_lib color_property ''widget.color'' = ''map_color_to_dto(widget.color)''
   \<and> dtoToStruct sample_lib widget_service caster_options widget_type
       = [''def map_dto_to_widget(dto)'',
          ''  Example::V1::Widget.new('',
          ''    id: dto['id'],'',
          ''    count: to_int(dto['count'].to_s),'',
          ''    created: to_date(dto['created'].to_s),'',
          ''    sizes: dto['sizes']&.map { |item| to_int(item.to_s) },'',
          ''    color: map_dto_to_color(dto['color'])'',
          ''  )'',
          ''rescue StandardError'',
          ''  dto'',
          ''end'']
   \<and> structToDto sample_lib widget_service caster_options widget_type
       = structToDto sample_lib widget_service no_options widget_type
   \<and> structToDto sample_lib widget_service no_options widget_type
       = [''def map_widget_to_dto(widget)'',
          ''  {'',
          ''    'id': widget.id,'',
          ''    'count': widget.count,'',
          ''    'created': widget.created&.to_s,'',
          ''    'sizes': widget.sizes&.map { |item| item },'',
          ''    'color': map_color_to_dto(widget.color),'',
          ''  }.compact'',
          ''rescue StandardError'',
          ''  widget'',
          ''end'']"
  using caster_replaces_wire_to_domain_cast
    [where L = sample_lib and service = widget_service and options = caster_options
       and t = widget_type and p = count_property and field = "''item''"
       and own = "[''date'' \<mapsto> ''to_date'', ''integer'' \<mapsto> ''to_int'']" and caster = "''to_int''"]
    caster_replaces_wire_to_domain_cast
    [where L = sample_lib and service = widget_service and options = no_options
       and t = widget_type and p = color_property and field = "''widget.color''"
       and own = "[''date'' \<mapsto> ''to_date'', ''integer'' \<mapsto> ''to_int'']" and caster = "''to_int''"]
  by (simp add: property_fields caster_options_simps widget_wireToDomainMethod_casters
      widget_domainToWireMethod sample_lib_simps sample_snake_simps)

text \<open>
  Claim C7, as stated, fails: with the caster \<open>to_int\<close> configured for \<open>integer\<close>, the
  wire-to-domain cast of an \<open>integer\<close> property is \<open>to_int(field.to_s)\<close>, which converts
  every value and has no \<open>is_a?(String)\<close> guard, and this is the line of the generated
  method.
\<close>

theorem custom_caster_cast_not_defensive:
  "o_types caster_options = Some [''date'' \<mapsto> ''to_date'', ''integer'' \<mapsto> ''to_int'']
   \<and> buildPropCast sample_lib caster_options ''integer'' True ''dto['count']'' = ''to_int(dto['count'].to_s)''
   \<and> \<not> defensiveCast ''dto['count']'' (buildPropCast sample_lib caster_options ''integer'' True ''dto['count']'')
   \<and> dtoToStruct sample_lib widget_service caster_options widget_type
       = [''def map_dto_to_widget(dto)'',
          ''  Example::V1::Widget.new('',
          ''    id: dto['id'],'',
          ''    count: to_int(dto['count'].to_s),'',
          ''    created: to_date(dto['created'].to_s),'',
          ''    sizes: dto['sizes']&.map { |item| to_int(item.to_s) },'',
          ''    color: map_dto_to_color(dto['color'])'',
          ''  )'',
          ''rescue StandardError'',
          ''  dto'',
          ''end'']"
  by (simp add: caster_options_simps buildPropCast_def typesOverride_def defensiveCast_def
      widget_dtoToStruct_casters)

lemma defensiveCast_guard:
  "defensiveCast baseCase (baseCase @ ''.is_a?(String) ? '' @ casted @ '' : '' @ baseCase)"
proof -
  have "suffix ('' : '' @ baseCase) (baseCase @ ''.is_a?(String) ? '' @ casted @ '' : '' @ baseCase)"
    by (rule suffixI [where zs = "baseCase @ ''.is_a?(String) ? '' @ casted"]) simp
  then show ?thesis
    by (simp add: defensiveCast_def)
qed

lemma conversion_None_iff:
  "conversion typeName field = None \<longleftrightarrow>
   typeName \<notin> {''boolean'', ''date'', ''date-time'', ''double'', ''float'', ''number'', ''integer'', ''long''}"
proof -
  have "conversion typeName field = None \<longleftrightarrow> map_of conversionTable typeName = None"
    by (simp add: conversion_def split: option.splits)
  also have "\<dots> \<longleftrightarrow> typeName \<notin> fst ` set conversionTable"
    by (rule map_of_eq_None_iff)
  also have "fst ` set conversionTable
               = {''boolean'', ''date'', ''date-time'', ''double'', ''float'', ''number'', ''integer'', ''long''}"
    by (simp add: conversionTable_def)
  finally show ?thesis .
qed

lemma guard_neq: "field @ ''.is_a?(String) ? '' @ converted @ '' : '' @ field \<noteq> field"
proof
  assume "field @ ''.is_a?(String) ? '' @ converted @ '' : '' @ field = field"
  then have "length (field @ ''.is_a?(String) ? '' @ converted @ '' : '' @ field) = length field"
    by simp
  then show False by simp
qed

text \<open>
  Claim C7, amended.  The generated wire-to-domain method of a type casts each property as
  \<open>wireToDomainCast\<close> says.  For a primitive property with no caster configured for its type
  name the cast is defensive: it is the field itself exactly when the type is none of
  \<open>boolean\<close>, \<open>date\<close>, \<open>date-time\<close>, \<open>double\<close>, \<open>float\<close>, \<open>number\<close>, \<open>integer\<close>, \<open>long\<close>, and
  for these it is the conversion of the table under the guard \<open>is_a?(String)\<close>, with the
  field itself as the alternative.  When a caster is configured, the cast is the unguarded
  call \<open>caster(field.to_s)\<close>.  No caster is configured when there is no \<open>types\<close> object, when
  the object holds the empty string for the name, or when it neither holds nor inherits the
  name.
\<close>

theorem default_primitive_cast_defensive:
  "dtoToStruct L service options t = wireToDomainMethod L service options t
   \<and> (prop_isPrimitive p \<and> configuredCaster L options (prop_typeName p) = None \<longrightarrow>
        defensiveCast field (wireToDomainCast L options p field)
        \<and> (wireToDomainCast L options p field = field)
            = (prop_typeName p \<notin> {''boolean'', ''date'', ''date-time'', ''double'', ''float'',
                                  ''number'', ''integer'', ''long''})
        \<and> (conversion (prop_typeName p) field = Some converted \<longrightarrow>
             wireToDomainCast L options p field
               = field @ ''.is_a?(String) ? '' @ converted @ '' : '' @ field))
   \<and> (prop_isPrimitive p \<and> configuredCaster L options (prop_typeName p) = Some caster \<longrightarrow>
        wireToDomainCast L options p field = caster @ ''('' @ field @ ''.to_s)'')
   \<and> (configuredCaster L options typeName = None)
       = (case o_types options of
            None \<Rightarrow> True
          | Some own \<Rightarrow>
              own typeName = Some [] \<or> (own typeName = None \<and> inheritedProperty L typeName = None))"
proof (intro conjI impI)
  show "dtoToStruct L service options t = wireToDomainMethod L service options t"
    by (rule dtoToStruct_wireToDomainMethod)
  show "(configuredCaster L options typeName = None)
       = (case o_types options of
            None \<Rightarrow> True
          | Some own \<Rightarrow>
              own typeName = Some [] \<or> (own typeName = None \<and> inheritedProperty L typeName = None))"
    by (cases "o_types options") (auto simp add: configuredCaster_def)
next
  assume h: "prop_isPrimitive p \<and> configuredCaster L options (prop_typeName p) = None"
  then have cast: "wireToDomainCast L options p field
      = (case conversion (prop_typeName p) field of
           None \<Rightarrow> field
         | Some converted \<Rightarrow> field @ ''.is_a?(String) ? '' @ converted @ '' : '' @ field)"
    by (simp add: wireToDomainCast_def)
  show "defensiveCast field (wireToDomainCast L options p field)"
  proof (cases "conversion (prop_typeName p) field")
    case None
    then show ?thesis unfolding cast by (simp add: defensiveCast_def)
  next
    case (Some converted)
    with defensiveCast_guard [of field converted] show ?thesis unfolding cast by simp
  qed
  show "(wireToDomainCast L options p field = field)
            = (prop_typeName p \<notin> {''boolean'', ''date'', ''date-time'', ''double'', ''float'',
                                  ''number'', ''integer'', ''long''})"
    unfolding cast conversion_None_iff [of "prop_typeName p" field, symmetric]
    by (cases "conversion (prop_typeName p) field") (simp_all add: guard_neq)
  show "wireToDomainCast L options p field
               = field @ ''.is_a?(String) ? '' @ converted @ '' : '' @ field"
    if "conversion (prop_typeName p) field = Some converted"
    unfolding cast by (simp add: that)
next
  assume "prop_isPrimitive p \<and> configuredCaster L options (prop_typeName p) = Some caster"
  then show "wireToDomainCast L options p field = caster @ ''('' @ field @ ''.to_s)''"
    by (simp add: wireToDomainCast_def)
qed

theorem default_primitive_cast_defensive_witness:
  "(prop_isPrimitive count_property
    \<and> configuredCaster sample_lib no_options (prop_typeName count_property) = None)
   \<and> conversion (prop_typeName count_property) ''dto['count']'' = Some ''Integer(dto['count'], 10)''
   \<and> defensiveCast ''dto['count']'' (wireToDomainCast sample_lib no_options count_property ''dto['count']'')
   \<and> wireToDomainCast sample_lib no_options count_property ''dto['count']''
       = ''dto['count'].is_a?(String) ? Integer(dto['count'], 10) : dto['count']''
   \<and> wireToDomainCast sample_lib no_options id_property ''dto['id']'' = ''dto['id']''
   \<and> (prop_isPrimitive count_property
        \<and> configuredCaster sample_lib caster_options (prop_typeName count_property) = Some ''to_int'')
   \<and> wireToDomainCast sample_lib caster_options count_property ''dto['count']'' = ''to_int(dto['count'].to_s)''
   \<and> buildPropCast sample_lib caster_options ''constructor'' True ''item''
       = ''function Object() { [native code] }(item.to_s)''
   \<and> dtoToStruct sample_lib widget_service no_options widget_type
       = [''def map_dto_to_widget(dto)'',
          ''  Example::V1::Widget.new('',
          ''    id: dto['id'],'',
          ''    count: dto['count'].is_a?(String) ? Integer(dto['count'], 10) : dto['count'],'',
          ''    created: dto['created'].is_a?(String) ? Date.parse(dto['created']) : dto['created'],'',
          ''    sizes: dto['sizes']&.map { |item| item.is_a?(String) ? Integer(item, 10) : item },'',
          ''    color: map_dto_to_color(dto['color'])'',
          ''  )'',
          ''rescue StandardError'',
          ''  dto'',
          ''end'']
   \<and> dtoToStruct sample_lib widget_service caster_options widget_type
       = [''def map_dto_to_widget(dto)'',
          ''  Example::V1::Widget.new('',
          ''    id: dto['id'],'',
          ''    count: to_int(dto['count'].to_s),'',
          ''    created: to_date(dto['created'].to_s),'',
          ''    sizes: dto['sizes']&.map { |item| to_int(item.to_s) },'',
          ''    color: map_dto_to_color(dto['color'])'',
          ''  )'',
          ''rescue StandardError'',
          ''  dto'',
          ''end'']"
proof -
  note default = default_primitive_cast_defensive
    [where L = sample_lib and service = widget_service and options = no_options and t = widget_type
       and p = count_property and field = "''dto['count']''"
       and converted = "''Integer(dto['count'], 10)''" and caster = "''to_int''"
       and typeName = "''integer''"]
  note plain = default_primitive_cast_defensive
    [where L = sample_lib and service = widget_service and options = no_options and t = widget_type
       and p = id_property and field = "''dto['id']''"
       and converted = "''Integer(dto['id'], 10)''" and caster = "''to_int''"
       and typeName = "''string''"]
  note casters = default_primitive_cast_defensive
    [where L = sample_lib and service = widget_service and options = caster_options
       and t = widget_type and p = count_property and field = "''dto['count']''"
       and converted = "''Integer(dto['count'], 10)''" and caster = "''to_int''"
       and typeName = "''integer''"]
  have inherited: "buildPropCast sample_lib caster_options ''constructor'' True ''item''
       = ''function Object() { [native code] }(item.to_s)''"
    by (simp add: buildPropCast_def typesOverride_configuredCaster configuredCaster_simps)
  have uncast: "prop_isPrimitive count_property
      \<and> configuredCaster sample_lib no_options (prop_typeName count_property) = None"
    by (simp add: property_fields configuredCaster_simps)
  have converted: "conversion (prop_typeName count_property) ''dto['count']''
      = Some ''Integer(dto['count'], 10)''"
    by (simp add: property_fields conversion_simps)
  have plain_uncast: "prop_isPrimitive id_property
      \<and> configuredCaster sample_lib no_options (prop_typeName id_property) = None"
    by (simp add: property_fields configuredCaster_simps)
  have cast: "prop_isPrimitive count_property
      \<and> configuredCaster sample_lib caster_options (prop_typeName count_property) = Some ''to_int''"
    by (simp add: property_fields configuredCaster_simps)
  from default uncast have defensive:
    "defensiveCast ''dto['count']'' (wireToDomainCast sample_lib no_options count_property ''dto['count']'')"
    by blast
  from default uncast converted have guarded:
    "wireToDomainCast sample_lib no_options count_property ''dto['count']''
       = ''dto['count']'' @ ''.is_a?(String) ? '' @ ''Integer(dto['count'], 10)'' @ '' : '' @ ''dto['count']''"
    by blast
  from plain plain_uncast have unconverted:
    "(wireToDomainCast sample_lib no_options id_property ''dto['id']'' = ''dto['id']'')
       = (prop_typeName id_property \<notin> {''boolean'', ''date'', ''date-time'', ''double'', ''float'',
                                  ''number'', ''integer'', ''long''})"
    by blast
  from casters cast have called:
    "wireToDomainCast sample_lib caster_options count_property ''dto['count']''
       = ''to_int'' @ ''('' @ ''dto['count']'' @ ''.to_s)''"
    by blast
  from unconverted have identity: "wireToDomainCast sample_lib no_options id_property ''dto['id']'' = ''dto['id']''"
    by (simp add: property_fields)
  show ?thesis
    apply (intro conjI)
    apply (rule uncast [THEN conjunct1])
    apply (rule uncast [THEN conjunct2])
    apply (rule converted)
    apply (rule defensive)
    using guarded apply simp
    apply (rule identity)
    apply (rule cast [THEN conjunct1])
    apply (rule cast [THEN conjunct2])
    using called apply simp
    apply (rule inherited)
    apply (rule widget_wireToDomainMethod_default [unfolded dtoToStruct_wireToDomainMethod [symmetric]])
    apply (rule widget_wireToDomainMethod_casters [unfolded dtoToStruct_wireToDomainMethod [symmetric]])
    done
qed

section \<open>The artifacts\<close>

text \<open>
  Claim C9.  The generator returns one client artifact per interface, in the order of the
  interfaces, followed by exactly one mapper artifact; so the number of artifacts is the
  number of interfaces plus one, whatever the HTTP bindings of the methods are.
\<close>

theorem generator_artifacts:
  "generator L service options
     = map (buildClientFile L service options) (interfaces service) @ [buildMapperFile L service options]
   \<and> length (generator L service options) = length (interfaces service) + 1"
  by (simp add: generator_def generateClients_def generateMapper_def)

section \<open>Methods without a binding\<close>

text \<open>
  Without a binding \<open>buildDefinition\<close> emits nothing and raises nothing; what the loop of
  \<open>buildClient\<close> emits for the method is then the blank line, the description and the
  signature.
\<close>

lemma buildDefinition_unbound:
  "getHttp L service (m_name method) = None \<Longrightarrow> buildDefinition L service options method = []"
  by (simp add: buildDefinition_def)

lemma buildClientMethod_unbound:
  "getHttp L service (m_name method) = None \<Longrightarrow>
   buildClientMethod L service options method
     = [[]] @ comment (m_description method) @ buildSignature L service options method"
  by (simp add: buildClientMethod_def buildDefinition_unbound)

lemma health_getHttp: "getHttp sample_lib health_service ''ping'' = None"
  by (simp add: getHttp_def js_map_get_def httpPathMap_def sample_lib_simps sample_allHttpPaths_def
      health_service_def health_interface_def)

text \<open>
  Claim C2 at the service whose only method \<open>ping\<close> has no HTTP binding.  The lookup is
  absent and \<open>buildDefinition\<close> emits nothing, but \<open>buildSignature\<close> does not consult the
  binding: the client artifact still carries the blank line and the signature
  \<open>sig { override.void }\<close> of \<open>ping\<close>, with no method definition after it.
\<close>

theorem unbound_method_keeps_signature:
  "getHttp sample_lib health_service (m_name ping_method) = None
   \<and> buildDefinition sample_lib health_service no_options ping_method = []
   \<and> buildSignature sample_lib health_service no_options ping_method = [''sig { override.void }'']
   \<and> buildClient sample_lib health_service no_options health_interface
       = [''# This code was generated by a tool.'', [], ''# typed: strict'', [],
          ''module Example::V1'',
          ''  class HealthHttpClient'',
          ''    extend T::Sig'', [],
          ''    include Example::V1::HealthService'',
          ''    include Example::V1::HttpClientHelpers'', [],
          ''    sig { params(api_root: String).void }'',
          ''    def initialize(api_root:)'',
          ''      @api_root = api_root'',
          ''    end'', [],
          ''    sig { override.void }'',
          ''  end'',
          ''end'', []]"
proof -
  have name: "m_name ping_method = ''ping''" "m_parameters ping_method = []"
    "m_returnType ping_method = None" "m_security ping_method = []" "m_description ping_method = []"
    by (simp_all add: ping_method_def)
  have no_binding: "getHttp sample_lib health_service (m_name ping_method) = None"
    by (simp add: name health_getHttp)
  have no_definition: "buildDefinition sample_lib health_service no_options ping_method = []"
    by (simp add: buildDefinition_def no_binding)
  have signature: "buildSignature sample_lib health_service no_options ping_method = [''sig { override.void }'']"
    by (simp add: buildSignature_def name)
  have ping_lines: "buildClientMethod sample_lib health_service no_options ping_method
                  = [[], ''sig { override.void }'']"
    by (simp add: buildClientMethod_def no_definition signature comment_def name)
  have version: "show_nat (majorVersion health_service) = ''1''"
    by (simp add: health_service_def show_nat.simps digit_char_def)
  have initializer: "buildInitializer sample_lib health_interface
                  = [''sig { params(api_root: String).void }'', ''def initialize(api_root:)'',
                     ''  @api_root = api_root'', ''end'']"
    by (simp add: buildInitializer_def health_interface_def name js_set_array_def apiRoot_def
        sample_lib_simps sample_snake_simps sample_block_def sample_indent_def)
  have options: "o_magicComments no_options = []" "o_fileIncludes no_options = []"
    "o_interfacesModule no_options = None"
    by (simp_all add: no_options_def)
  have client: "buildClient sample_lib health_service no_options health_interface
       = [''# This code was generated by a tool.'', [], ''# typed: strict'', [],
          ''module Example::V1'',
          ''  class HealthHttpClient'',
          ''    extend T::Sig'', [],
          ''    include Example::V1::HealthService'',
          ''    include Example::V1::HttpClientHelpers'', [],
          ''    sig { params(api_root: String).void }'',
          ''    def initialize(api_root:)'',
          ''      @api_root = api_root'',
          ''    end'', [],
          ''    sig { override.void }'',
          ''  end'',
          ''end'', []]"
    unfolding buildClient_def Let_def initializer
    by (simp add: health_interface_def js_sort_def ping_lines magicComments_def comment_def options
        sample_lib_simps sample_buildNamespace_def version sample_pascal_simps buildMapperNamespace_def
        buildMapperName_def sample_block_def sample_indent_def)
  from no_binding no_definition signature client show ?thesis by blast
qed

section \<open>Query keys\<close>

lemma two_spellings_allParameters:
  "sample_allParameters two_spellings_service =
     [(listWidgets_method, None),
      (listWidgets_method, None),
      (list_widgets_method, Some \<lparr> hprm_name = ''page_size'', hprm_in = InQuery \<rparr>),
      (list_widgets_method, Some \<lparr> hprm_name = ''request_id'', hprm_in = InHeader \<rparr>)]"
  by (simp add: sample_allParameters_def sample_httpParameter_def sample_getHttpMethodByName_def
      two_spellings_service_def listWidgets_method_def list_widgets_method_def listWidgets_http_def
      list_widgets_http_def pageSize_parameter_def requestId_parameter_def page_size_parameter_def
      request_id_parameter_def)

lemma two_spellings_httpParameterMap:
  "httpParameterMap sample_lib two_spellings_service =
     [(''list_widgets|||page_size'', \<lparr> hprm_name = ''page_size'', hprm_in = InQuery \<rparr>),
      (''list_widgets|||request_id'', \<lparr> hprm_name = ''request_id'', hprm_in = InHeader \<rparr>)]"
  by (simp add: httpParameterMap_def two_spellings_allParameters key_def sample_lib_simps
      sample_snake_simps list_widgets_method_def)

lemma listWidgets_fields:
  "m_name listWidgets_method = ''listWidgets''"
  "m_parameters listWidgets_method = [pageSize_parameter, requestId_parameter]"
  "m_security listWidgets_method = []"
  by (simp_all add: listWidgets_method_def)

text \<open>
  Claim C1 at the method \<open>listWidgets\<close> of the service that spells one operation in two
  ways.  The binding resolver, whose keys are snake-case forms, resolves the parameter
  \<open>pageSize\<close> to the HTTP parameter named \<open>page_size\<close> in the query and the parameter
  \<open>requestId\<close> to the HTTP parameter named \<open>request_id\<close> in a header.  The query hash is built
  and compacted, but its key is the name of the method parameter, \<open>pageSize\<close>, not the
  name \<open>page_size\<close> that the HTTP parameter declares; the header, in contrast, is set under
  the name \<open>request_id\<close> that its HTTP parameter declares.
\<close>

theorem query_key_is_parameter_name:
  "p_name pageSize_parameter = ''pageSize''
   \<and> getHttpParameter sample_lib two_spellings_service (m_name listWidgets_method)
         (p_name pageSize_parameter)
       = Some \<lparr> hprm_name = ''page_size'', hprm_in = InQuery \<rparr>
   \<and> buildQuery sample_lib two_spellings_service listWidgets_method
       = [''safe_internal_uri.query = URI.encode_www_form('',
          ''  {'',
          ''    'pageSize': page_size,'',
          ''  }.compact'',
          '')'']
   \<and> p_name requestId_parameter = ''requestId''
   \<and> getHttpParameter sample_lib two_spellings_service (m_name listWidgets_method)
         (p_name requestId_parameter)
       = Some \<lparr> hprm_name = ''request_id'', hprm_in = InHeader \<rparr>
   \<and> buildHeaders sample_lib two_spellings_service listWidgets_method
       = [''safe_internal_req['request_id'] = request_id'']"
proof -
  have query_binding: "getHttpParameter sample_lib two_spellings_service ''listWidgets'' ''pageSize''
       = Some \<lparr> hprm_name = ''page_size'', hprm_in = InQuery \<rparr>"
    by (simp add: getHttpParameter_def js_map_get_def two_spellings_httpParameterMap key_def
        sample_lib_simps sample_snake_simps)
  have header_binding: "getHttpParameter sample_lib two_spellings_service ''listWidgets'' ''requestId''
       = Some \<lparr> hprm_name = ''request_id'', hprm_in = InHeader \<rparr>"
    by (simp add: getHttpParameter_def js_map_get_def two_spellings_httpParameterMap key_def
        sample_lib_simps sample_snake_simps)
  have params: "paramsByName sample_lib two_spellings_service listWidgets_method
       = [(''pageSize'', (pageSize_parameter, Some \<lparr> hprm_name = ''page_size'', hprm_in = InQuery \<rparr>)),
          (''requestId'',
           (requestId_parameter, Some \<lparr> hprm_name = ''request_id'', hprm_in = InHeader \<rparr>))]"
    by (simp add: paramsByName_def js_map_new_def listWidgets_fields query_binding header_binding
        parameter_names)
  have qmap: "queryMap sample_lib two_spellings_service listWidgets_method
       = [(''pageSize'', (pageSize_parameter, \<lparr> hprm_name = ''page_size'', hprm_in = InQuery \<rparr>))]"
    by (simp add: queryMap_def params)
  have query: "buildQuery sample_lib two_spellings_service listWidgets_method
       = [''safe_internal_uri.query = URI.encode_www_form('',
          ''  {'',
          ''    'pageSize': page_size,'',
          ''  }.compact'',
          '')'']"
    by (simp add: buildQuery_def qmap uri_def sample_lib_simps sample_indent_def parameter_names
        sample_snake_simps)
  have headers: "buildHeaders sample_lib two_spellings_service listWidgets_method
       = [''safe_internal_req['request_id'] = request_id'']"
    by (simp add: buildHeaders_def params listWidgets_fields req_def sample_lib_simps parameter_names
        sample_snake_simps)
  from query_binding header_binding query headers show ?thesis
    by (simp add: parameter_names listWidgets_fields)
qed

end
